theory Spec2Isabelle
  imports Complex_Main "HOL-Library.AList"
begin

section \<open>JavaScript numbers\<close>

text \<open>
  The viewer (\<^verbatim>\<open>class StudioViewer\<close>) computes with JavaScript numbers, which are IEEE
  doubles. A number is a finite value, an infinity or \<^verbatim>\<open>NaN\<close>. An operation on finite
  operands computes the exact result and rounds it; \<open>rnd\<close> is the rounding of the host,
  which answers an infinity on overflow and may answer zero on underflow. It is a
  parameter, as is \<^verbatim>\<open>Math.atan\<close>, which the language leaves to the implementation.
  The sign of a zero is not represented: a zero is \<open>Num 0\<close>, and a zero divisor is read
  as positive.
\<close>

datatype number = Num real | PosInf | NegInf | NaN

record fp =
  rnd :: "real \<Rightarrow> number"
  Math_atan :: "number \<Rightarrow> number"

fun num_neg :: "number \<Rightarrow> number" where
  "num_neg (Num a) = Num (- a)"
| "num_neg PosInf = NegInf"
| "num_neg NegInf = PosInf"
| "num_neg NaN = NaN"

fun num_add :: "fp \<Rightarrow> number \<Rightarrow> number \<Rightarrow> number" where
  "num_add fp NaN b = NaN"
| "num_add fp a NaN = NaN"
| "num_add fp PosInf NegInf = NaN"
| "num_add fp NegInf PosInf = NaN"
| "num_add fp PosInf b = PosInf"
| "num_add fp NegInf b = NegInf"
| "num_add fp a PosInf = PosInf"
| "num_add fp a NegInf = NegInf"
| "num_add fp (Num a) (Num b) = rnd fp (a + b)"

definition num_sub :: "fp \<Rightarrow> number \<Rightarrow> number \<Rightarrow> number" where
  "num_sub fp a b = num_add fp a (num_neg b)"

text \<open>The sign of a number other than \<^verbatim>\<open>NaN\<close>: true when it is negative.\<close>

fun negative :: "number \<Rightarrow> bool" where
  "negative (Num a) = (a < 0)"
| "negative NegInf = True"
| "negative x = False"

definition signed_inf :: "bool \<Rightarrow> number" where
  "signed_inf neg = (if neg then NegInf else PosInf)"

fun num_mul :: "fp \<Rightarrow> number \<Rightarrow> number \<Rightarrow> number" where
  "num_mul fp NaN b = NaN"
| "num_mul fp a NaN = NaN"
| "num_mul fp (Num a) (Num b) = rnd fp (a * b)"
| "num_mul fp (Num a) b = (if a = 0 then NaN else signed_inf (negative (Num a) \<noteq> negative b))"
| "num_mul fp a (Num b) = (if b = 0 then NaN else signed_inf (negative a \<noteq> negative (Num b)))"
| "num_mul fp a b = signed_inf (negative a \<noteq> negative b)"

fun num_div :: "fp \<Rightarrow> number \<Rightarrow> number \<Rightarrow> number" where
  "num_div fp NaN b = NaN"
| "num_div fp a NaN = NaN"
| "num_div fp (Num a) (Num b) =
     (if b = 0 then (if a = 0 then NaN else signed_inf (a < 0)) else rnd fp (a / b))"
| "num_div fp (Num a) b = Num 0"
| "num_div fp a (Num b) = signed_inf (negative a \<noteq> negative (Num b))"
| "num_div fp a b = NaN"

fun num_sqrt :: "fp \<Rightarrow> number \<Rightarrow> number" where
  "num_sqrt fp (Num a) = (if a < 0 then NaN else rnd fp (sqrt a))"
| "num_sqrt fp PosInf = PosInf"
| "num_sqrt fp x = NaN"

text \<open>The comparisons \<^verbatim>\<open><\<close> and \<^verbatim>\<open><=\<close>: false whenever an operand is \<^verbatim>\<open>NaN\<close>.\<close>

fun num_less :: "number \<Rightarrow> number \<Rightarrow> bool" where
  "num_less NaN b = False"
| "num_less a NaN = False"
| "num_less (Num a) (Num b) = (a < b)"
| "num_less a NegInf = False"
| "num_less PosInf b = False"
| "num_less a b = True"

definition num_le :: "number \<Rightarrow> number \<Rightarrow> bool" where
  "num_le a b \<longleftrightarrow> a \<noteq> NaN \<and> b \<noteq> NaN \<and> (a = b \<or> num_less a b)"

text \<open>\<^verbatim>\<open>Math.max\<close> and \<^verbatim>\<open>Math.min\<close> answer \<^verbatim>\<open>NaN\<close> when an argument is \<^verbatim>\<open>NaN\<close>.\<close>

definition Math_max :: "number \<Rightarrow> number \<Rightarrow> number" where
  "Math_max a b = (if a = NaN \<or> b = NaN then NaN else if num_less a b then b else a)"

definition Math_min :: "number \<Rightarrow> number \<Rightarrow> number" where
  "Math_min a b = (if a = NaN \<or> b = NaN then NaN else if num_less b a then b else a)"

definition Math_PI :: "fp \<Rightarrow> number" where
  "Math_PI fp = rnd fp pi"

text \<open>In \<^verbatim>\<open>a || b\<close> a number is falsy when it is zero or \<^verbatim>\<open>NaN\<close>.\<close>

definition or_else :: "number \<Rightarrow> number \<Rightarrow> number" where
  "or_else a b = (if a = Num 0 \<or> a = NaN then b else a)"

text \<open>
  What the statements assume of the rounding: zero and one are numbers, a rounded value
  is never \<^verbatim>\<open>NaN\<close>, rounding is monotone and leaves a number as it is, and twice a
  positive number is a number unless it overflows. The rounding of IEEE doubles to the
  nearest has these properties.
\<close>

definition rounding :: "fp \<Rightarrow> bool" where
  "rounding fp \<longleftrightarrow>
     rnd fp 0 = Num 0 \<and> rnd fp 1 = Num 1
     \<and> (\<forall>x. rnd fp x \<noteq> NaN)
     \<and> (\<forall>x y. x \<le> y \<longrightarrow> num_le (rnd fp x) (rnd fp y))
     \<and> (\<forall>x a. rnd fp x = Num a \<longrightarrow> rnd fp a = Num a)
     \<and> (\<forall>a. 0 < a \<and> rnd fp a = Num a \<longrightarrow>
            rnd fp (2 * a) = Num (2 * a) \<or> rnd fp (2 * a) = PosInf)"

text \<open>Arithmetic without rounding, for the examples.\<close>

definition exact_atan :: "number \<Rightarrow> number" where
  "exact_atan x =
     (case x of Num a \<Rightarrow> Num (arctan a) | PosInf \<Rightarrow> Num (pi / 2)
      | NegInf \<Rightarrow> Num (- (pi / 2)) | NaN \<Rightarrow> NaN)"

definition exact :: fp where
  "exact = \<lparr>rnd = Num, Math_atan = exact_atan\<rparr>"

section \<open>Vectors and boxes of three.js\<close>

text \<open>
  The three.js operations are written out from the library's documented behaviour, one
  definition per method the viewer calls.
\<close>

datatype Vector3 = Vector3 (vx: number) (vy: number) (vz: number)

definition sub :: "fp \<Rightarrow> Vector3 \<Rightarrow> Vector3 \<Rightarrow> Vector3" where
  "sub fp a b =
     Vector3 (num_sub fp (vx a) (vx b)) (num_sub fp (vy a) (vy b)) (num_sub fp (vz a) (vz b))"

definition addVectors :: "fp \<Rightarrow> Vector3 \<Rightarrow> Vector3 \<Rightarrow> Vector3" where
  "addVectors fp a b =
     Vector3 (num_add fp (vx a) (vx b)) (num_add fp (vy a) (vy b)) (num_add fp (vz a) (vz b))"

definition multiplyScalar :: "fp \<Rightarrow> Vector3 \<Rightarrow> number \<Rightarrow> Vector3" where
  "multiplyScalar fp a s = Vector3 (num_mul fp (vx a) s) (num_mul fp (vy a) s) (num_mul fp (vz a) s)"

text \<open>\<^verbatim>\<open>Math.sqrt( this.x * this.x + this.y * this.y + this.z * this.z )\<close>.\<close>

definition length_v :: "fp \<Rightarrow> Vector3 \<Rightarrow> number" where
  "length_v fp a =
     num_sqrt fp (num_add fp (num_add fp (num_mul fp (vx a) (vx a)) (num_mul fp (vy a) (vy a)))
                             (num_mul fp (vz a) (vz a)))"

definition divideScalar :: "fp \<Rightarrow> Vector3 \<Rightarrow> number \<Rightarrow> Vector3" where
  "divideScalar fp a s = multiplyScalar fp a (num_div fp (Num 1) s)"

text \<open>
  \<^verbatim>\<open>normalize() { return this.divideScalar( this.length() || 1 ); }\<close>: a length that is
  zero or \<^verbatim>\<open>NaN\<close> is replaced by one.
\<close>

definition normalize :: "fp \<Rightarrow> Vector3 \<Rightarrow> Vector3" where
  "normalize fp a = divideScalar fp a (or_else (length_v fp a) (Num 1))"

definition min_v :: "Vector3 \<Rightarrow> Vector3 \<Rightarrow> Vector3" where
  "min_v a b = Vector3 (Math_min (vx a) (vx b)) (Math_min (vy a) (vy b)) (Math_min (vz a) (vz b))"

definition max_v :: "Vector3 \<Rightarrow> Vector3 \<Rightarrow> Vector3" where
  "max_v a b = Vector3 (Math_max (vx a) (vx b)) (Math_max (vy a) (vy b)) (Math_max (vz a) (vz b))"

text \<open>
  A \<^verbatim>\<open>THREE.Box3\<close> is created empty: its minimum at plus infinity, its maximum at minus
  infinity. A box is empty when its maximum is below its minimum in some coordinate.
\<close>

datatype Box3 = Box3 (bmin: Vector3) (bmax: Vector3)

definition makeEmpty :: Box3 where
  "makeEmpty = Box3 (Vector3 PosInf PosInf PosInf) (Vector3 NegInf NegInf NegInf)"

definition isEmpty :: "Box3 \<Rightarrow> bool" where
  "isEmpty b \<longleftrightarrow>
     num_less (vx (bmax b)) (vx (bmin b)) \<or> num_less (vy (bmax b)) (vy (bmin b))
     \<or> num_less (vz (bmax b)) (vz (bmin b))"

definition union_box :: "Box3 \<Rightarrow> Box3 \<Rightarrow> Box3" where
  "union_box a b = Box3 (min_v (bmin a) (bmin b)) (max_v (bmax a) (bmax b))"

text \<open>
  An object of the selection is represented by the world-space box that
  \<^verbatim>\<open>Box3.expandByObject\<close> unites with the receiver for it (the empty box for an object
  without geometry).
\<close>

type_synonym Object3D = Box3

definition expandByObject :: "Box3 \<Rightarrow> Object3D \<Rightarrow> Box3" where
  "expandByObject b object = union_box b object"

text \<open>\<^verbatim>\<open>getSize\<close> and \<^verbatim>\<open>getCenter\<close> answer the zero vector for an empty box.\<close>

definition getSize :: "fp \<Rightarrow> Box3 \<Rightarrow> Vector3" where
  "getSize fp b =
     (if isEmpty b then Vector3 (Num 0) (Num 0) (Num 0) else sub fp (bmax b) (bmin b))"

definition getCenter :: "fp \<Rightarrow> Box3 \<Rightarrow> Vector3" where
  "getCenter fp b =
     (if isEmpty b then Vector3 (Num 0) (Num 0) (Num 0)
      else multiplyScalar fp (addVectors fp (bmin b) (bmax b)) (Num (1 / 2)))"

section \<open>The viewer state\<close>

text \<open>
  The fields of the camera, of the orbit controls and of the viewer that
  \<^verbatim>\<open>fitCameraToSelection\<close> and \<^verbatim>\<open>setCameraView\<close> read or write. \<open>model\<close> is
  \<^verbatim>\<open>this.model\<close>, unset until a model or the placeholder has been created.
\<close>

record viewer =
  camera_fov :: number
  camera_aspect :: number
  camera_near :: number
  camera_far :: number
  camera_position :: Vector3
  camera_quaternion :: "number \<times> number \<times> number \<times> number"
  controls_target :: Vector3
  controls_maxDistance :: number
  model :: "Object3D option"

text \<open>
  The errors the specification names for the camera fit, and the \<^verbatim>\<open>TypeError\<close> of
  JavaScript. An operation completes with \<open>Inr\<close> of its result or with \<open>Inl\<close> of the
  error it throws.
\<close>

datatype error = EmptyInputError | DegenerateDirectionError | TypeError

section \<open>fitCameraToSelection\<close>

text \<open>The box built by the loop \<^verbatim>\<open>for(const object of selection) box.expandByObject(object)\<close>.\<close>

definition selection_box :: "Object3D list \<Rightarrow> Box3" where
  "selection_box selection = foldl expandByObject makeEmpty selection"

text \<open>The local constants of the function, in the order of the source.\<close>

definition maxSize :: "fp \<Rightarrow> Object3D list \<Rightarrow> number" where
  "maxSize fp selection =
     (let size = getSize fp (selection_box selection)
      in Math_max (Math_max (vx size) (vy size)) (vz size))"

definition fitHeightDistance :: "fp \<Rightarrow> viewer \<Rightarrow> Object3D list \<Rightarrow> number" where
  "fitHeightDistance fp v selection =
     num_div fp (maxSize fp selection)
       (num_mul fp (Num 2)
          (Math_atan fp (num_div fp (num_mul fp (Math_PI fp) (camera_fov v)) (Num 360))))"

definition fitWidthDistance :: "fp \<Rightarrow> viewer \<Rightarrow> Object3D list \<Rightarrow> number" where
  "fitWidthDistance fp v selection =
     num_div fp (fitHeightDistance fp v selection) (camera_aspect v)"

definition distance :: "fp \<Rightarrow> viewer \<Rightarrow> Object3D list \<Rightarrow> number \<Rightarrow> number" where
  "distance fp v selection fitOffset =
     num_mul fp fitOffset
       (Math_max (fitHeightDistance fp v selection) (fitWidthDistance fp v selection))"

definition direction :: "fp \<Rightarrow> viewer \<Rightarrow> Object3D list \<Rightarrow> number \<Rightarrow> Vector3" where
  "direction fp v selection fitOffset =
     multiplyScalar fp (normalize fp (sub fp (controls_target v) (camera_position v)))
       (distance fp v selection fitOffset)"

text \<open>
  The assignments of the function up to the final \<^verbatim>\<open>controls.update()\<close>.
  \<^verbatim>\<open>camera.updateProjectionMatrix()\<close> recomputes the projection matrix from the fields
  kept here and writes none of them.
\<close>

definition fit_assignments :: "fp \<Rightarrow> viewer \<Rightarrow> Object3D list \<Rightarrow> number \<Rightarrow> viewer" where
  "fit_assignments fp v selection fitOffset =
     (let center = getCenter fp (selection_box selection);
          d = distance fp v selection fitOffset;
          dir = direction fp v selection fitOffset
      in v\<lparr>controls_maxDistance := num_mul fp d (Num 10),
           controls_target := center,
           camera_near := num_div fp d (Num 100),
           camera_far := num_mul fp d (Num 100),
           camera_position := sub fp center dir\<rparr>)"

text \<open>
  The whole function. \<open>controls_update\<close> is \<^verbatim>\<open>OrbitControls.update\<close>, a method of the
  library taken as a parameter. The body has no \<^verbatim>\<open>throw\<close> and the vector and box
  operations it calls do not throw, so the completion is always normal.
\<close>

definition fitCameraToSelection ::
  "fp \<Rightarrow> (viewer \<Rightarrow> viewer) \<Rightarrow> viewer \<Rightarrow> Object3D list \<Rightarrow> number \<Rightarrow> error + viewer" where
  "fitCameraToSelection fp controls_update v selection fitOffset =
     Inr (controls_update (fit_assignments fp v selection fitOffset))"

section \<open>setCameraView\<close>

text \<open>
  \<open>lookAt\<close> is \<^verbatim>\<open>camera.lookAt\<close> and \<open>controls_update\<close> is \<^verbatim>\<open>OrbitControls.update\<close>, both
  methods of the library taken as parameters. A view name that matches no \<^verbatim>\<open>case\<close>
  leaves the position as it is.
\<close>

definition setCameraView ::
  "fp \<Rightarrow> (Vector3 \<Rightarrow> viewer \<Rightarrow> viewer) \<Rightarrow> (viewer \<Rightarrow> viewer) \<Rightarrow> viewer \<Rightarrow> string \<Rightarrow> viewer" where
  "setCameraView fp lookAt controls_update v view =
     (if model v = None then v
      else
        let dist = Num 5;
            target = Vector3 (Num 0) (Num 0) (Num 0);
            v1 = (if view = ''isometric'' then v\<lparr>camera_position := Vector3 dist dist dist\<rparr>
                  else if view = ''front'' then
                    v\<lparr>camera_position :=
                        Vector3 (Num 0) (Num 0) (num_mul fp dist (Num (3 / 2)))\<rparr>
                  else if view = ''top'' then
                    v\<lparr>camera_position :=
                        Vector3 (Num 0) (num_mul fp dist (Num (3 / 2))) (Num 0)\<rparr>
                  else if view = ''side'' then
                    v\<lparr>camera_position :=
                        Vector3 (num_mul fp dist (Num (3 / 2))) (Num 0) (Num 0)\<rparr>
                  else v)
        in controls_update (lookAt target v1))"

section \<open>The glTF document and the JavaScript operations on it\<close>

text \<open>
  The optimisation script (\<^verbatim>\<open>optimize\<close>) reads a glTF document with
  \<^verbatim>\<open>fs.readJsonSync\<close> and edits it in place before handing it to gltf-pipeline. The
  document is a JSON value; the entries of an object keep their order, and a key is read
  at its first entry (the keys of a parsed object are distinct).
\<close>

datatype json =
    JNull
  | JBool bool
  | JNum real
  | JStr string
  | JArr "json list"
  | JObj "(string \<times> json) list"

text \<open>
  The truth value JavaScript gives a value in \<^verbatim>\<open>if (v)\<close>: \<^verbatim>\<open>null\<close>, \<^verbatim>\<open>false\<close>, zero
  and the empty string are falsy, every array and object is truthy. An absent property
  reads as \<^verbatim>\<open>undefined\<close>, which is falsy; the callers treat \<open>None\<close> accordingly.
\<close>

fun truthy :: "json \<Rightarrow> bool" where
  "truthy JNull = False"
| "truthy (JBool b) = b"
| "truthy (JNum n) = (n \<noteq> 0)"
| "truthy (JStr s) = (s \<noteq> [])"
| "truthy (JArr xs) = True"
| "truthy (JObj kvs) = True"

text \<open>
  \<open>property j k\<close> is the own property \<open>k\<close> of \<open>j\<close>, for the property names the script
  uses (none of them is an index, \<^verbatim>\<open>length\<close> or a method name): an object answers its
  entry, every other value has none. Reading a property of \<^verbatim>\<open>null\<close> throws a
  \<^verbatim>\<open>TypeError\<close>; on any other value the read succeeds.
\<close>

fun property :: "json \<Rightarrow> string \<Rightarrow> json option" where
  "property (JObj kvs) k = map_of kvs k"
| "property j k = None"

fun get_prop :: "json \<Rightarrow> string \<Rightarrow> error + json option" where
  "get_prop JNull k = Inl TypeError"
| "get_prop j k = Inr (property j k)"

text \<open>
  \<^verbatim>\<open>delete obj.k\<close>: removes the entry from an object, throws on \<^verbatim>\<open>null\<close>, and does
  nothing on any other value.
\<close>

fun delete_prop :: "json \<Rightarrow> string \<Rightarrow> error + json" where
  "delete_prop JNull k = Inl TypeError"
| "delete_prop (JObj kvs) k = Inr (JObj (AList.delete k kvs))"
| "delete_prop j k = Inr j"

text \<open>
  The script never assigns a property; it mutates the value a property refers to.
  \<open>put_prop obj k v\<close> writes that mutated value back at the entry it was read from.
\<close>

fun put_prop :: "json \<Rightarrow> string \<Rightarrow> json \<Rightarrow> json" where
  "put_prop (JObj kvs) k v = JObj (AList.update k v kvs)"
| "put_prop j k v = j"

text \<open>
  Sequencing of statements: an error thrown by the first ends the sequence.
\<close>

definition bind :: "error + 'a \<Rightarrow> ('a \<Rightarrow> error + 'b) \<Rightarrow> error + 'b" where
  "bind m f = (case m of Inl e \<Rightarrow> Inl e | Inr x \<Rightarrow> f x)"

text \<open>
  \<^verbatim>\<open>arr.forEach(f)\<close> calls \<open>f\<close> on the elements in order; \<open>f\<close> mutates its argument, so
  the model collects the mutated elements. On a value that is not an array the method
  is missing and the call throws a \<^verbatim>\<open>TypeError\<close>.
\<close>

fun forEach_elems :: "(json \<Rightarrow> error + json) \<Rightarrow> json list \<Rightarrow> error + json list" where
  "forEach_elems f [] = Inr []"
| "forEach_elems f (x # xs) =
     bind (f x) (\<lambda>y. bind (forEach_elems f xs) (\<lambda>ys. Inr (y # ys)))"

fun forEach :: "json \<Rightarrow> (json \<Rightarrow> error + json) \<Rightarrow> error + json" where
  "forEach (JArr xs) f = bind (forEach_elems f xs) (\<lambda>ys. Inr (JArr ys))"
| "forEach j f = Inl TypeError"

section \<open>The stripping part of optimize\<close>

text \<open>
  The callback of \<^verbatim>\<open>gltf.materials.forEach\<close>.
\<close>

definition strip_material :: "json \<Rightarrow> error + json" where
  "strip_material mat =
     bind (get_prop mat ''pbrMetallicRoughness'') (\<lambda>pbr.
     bind (case pbr of
             None \<Rightarrow> Inr mat
           | Some p \<Rightarrow>
               if truthy p then
                 bind (delete_prop p ''baseColorTexture'') (\<lambda>p1.
                 bind (delete_prop p1 ''metallicRoughnessTexture'') (\<lambda>p2.
                 Inr (put_prop mat ''pbrMetallicRoughness'' p2)))
               else Inr mat) (\<lambda>m1.
     bind (delete_prop m1 ''normalTexture'') (\<lambda>m2.
     bind (delete_prop m2 ''occlusionTexture'') (\<lambda>m3.
     delete_prop m3 ''emissiveTexture''))))"

text \<open>
  The block under \<^verbatim>\<open>// STRIP TEXTURES MANUALLY\<close>.
\<close>

definition strip_textures :: "json \<Rightarrow> error + json" where
  "strip_textures gltf =
     bind (delete_prop gltf ''images'') (\<lambda>g1.
     bind (delete_prop g1 ''textures'') (\<lambda>g2.
     bind (delete_prop g2 ''samplers'') (\<lambda>g3.
     bind (get_prop g3 ''materials'') (\<lambda>materials.
     case materials of
       None \<Rightarrow> Inr g3
     | Some ms \<Rightarrow>
         if truthy ms then
           bind (forEach ms strip_material) (\<lambda>ms'. Inr (put_prop g3 ''materials'' ms'))
         else Inr g3))))"

text \<open>
  The callback of \<^verbatim>\<open>mesh.primitives.forEach\<close>.
\<close>

definition strip_primitive :: "json \<Rightarrow> error + json" where
  "strip_primitive primitive =
     bind (get_prop primitive ''attributes'') (\<lambda>attributes.
     case attributes of
       None \<Rightarrow> Inr primitive
     | Some a \<Rightarrow>
         if truthy a then
           bind (delete_prop a ''NORMAL'') (\<lambda>a1.
           bind (delete_prop a1 ''TEXCOORD_0'') (\<lambda>a2.
           bind (delete_prop a2 ''TEXCOORD_1'') (\<lambda>a3.
           bind (delete_prop a3 ''TANGENT'') (\<lambda>a4.
           bind (delete_prop a4 ''COLOR_0'') (\<lambda>a5.
           Inr (put_prop primitive ''attributes'' a5))))))
         else Inr primitive)"

text \<open>
  The callback of \<^verbatim>\<open>gltf.meshes.forEach\<close>.
\<close>

definition strip_mesh :: "json \<Rightarrow> error + json" where
  "strip_mesh mesh =
     bind (get_prop mesh ''primitives'') (\<lambda>primitives.
     case primitives of
       None \<Rightarrow> Inr mesh
     | Some ps \<Rightarrow>
         if truthy ps then
           bind (forEach ps strip_primitive) (\<lambda>ps'. Inr (put_prop mesh ''primitives'' ps'))
         else Inr mesh)"

text \<open>
  The block under \<^verbatim>\<open>// STRIP GEOMETRY ATTRIBUTES FOR WIREFRAME\<close>.
\<close>

definition strip_geometry_attributes :: "json \<Rightarrow> error + json" where
  "strip_geometry_attributes gltf =
     bind (get_prop gltf ''meshes'') (\<lambda>meshes.
     case meshes of
       None \<Rightarrow> Inr gltf
     | Some ms \<Rightarrow>
         if truthy ms then
           bind (forEach ms strip_mesh) (\<lambda>ms'. Inr (put_prop gltf ''meshes'' ms'))
         else Inr gltf)"

text \<open>
  The two blocks in sequence: the document that \<^verbatim>\<open>optimize\<close> passes to
  \<^verbatim>\<open>processGltf\<close>, or the error that sends it to its \<^verbatim>\<open>catch\<close> clause.
\<close>

definition strip :: "json \<Rightarrow> error + json" where
  "strip gltf = bind (strip_textures gltf) strip_geometry_attributes"

section \<open>Notions used in the statements\<close>

text \<open>
  For the camera fit: a finite number and a vector of finite numbers, the zero vector,
  and the divisor \<^verbatim>\<open>2 * Math.atan(Math.PI * camera.fov / 360)\<close> of the source's
  expression for \<^verbatim>\<open>fitHeightDistance\<close> (lemma \<open>fitHeightDistance_divisor\<close>).
\<close>

fun finite_num :: "number \<Rightarrow> bool" where
  "finite_num (Num a) = True"
| "finite_num x = False"

definition finite_v :: "Vector3 \<Rightarrow> bool" where
  "finite_v a \<longleftrightarrow> finite_num (vx a) \<and> finite_num (vy a) \<and> finite_num (vz a)"

definition zero_v :: Vector3 where
  "zero_v = Vector3 (Num 0) (Num 0) (Num 0)"

definition fit_divisor :: "fp \<Rightarrow> viewer \<Rightarrow> number" where
  "fit_divisor fp v =
     num_mul fp (Num 2)
       (Math_atan fp (num_div fp (num_mul fp (Math_PI fp) (camera_fov v)) (Num 360)))"

text \<open>A number that rounding leaves as it is.\<close>

definition settled :: "fp \<Rightarrow> number \<Rightarrow> bool" where
  "settled fp x \<longleftrightarrow> (\<forall>a. x = Num a \<longrightarrow> rnd fp a = Num a)"

fun is_obj :: "json \<Rightarrow> bool" where
  "is_obj (JObj kvs) = True"
| "is_obj j = False"

text \<open>
  \<open>same_except K a b\<close>: \<open>b\<close> is \<open>a\<close> except for the properties named in \<open>K\<close>. A value
  that is not an object is unchanged.
\<close>

definition same_except :: "string set \<Rightarrow> json \<Rightarrow> json \<Rightarrow> bool" where
  "same_except K a b \<longleftrightarrow>
     (if is_obj a then is_obj b else b = a) \<and> (\<forall>k. k \<notin> K \<longrightarrow> property b k = property a k)"

text \<open>
  Consecutive \<^verbatim>\<open>delete\<close> statements on one value, and the pattern
  \<^verbatim>\<open>if (obj.k) { ... obj.k ... }\<close>; the definitions of the previous section are
  instances of both (lemmas \<open>strip_material_alt\<close> and following).
\<close>

fun delete_props :: "json \<Rightarrow> string list \<Rightarrow> error + json" where
  "delete_props j [] = Inr j"
| "delete_props j (k # ks) = bind (delete_prop j k) (\<lambda>j'. delete_props j' ks)"

definition on_truthy :: "json \<Rightarrow> string \<Rightarrow> (json \<Rightarrow> error + json) \<Rightarrow> error + json" where
  "on_truthy obj k g =
     bind (get_prop obj k) (\<lambda>v.
     case v of
       None \<Rightarrow> Inr obj
     | Some x \<Rightarrow> if truthy x then bind (g x) (\<lambda>x'. Inr (put_prop obj k x')) else Inr obj)"

text \<open>
  A path into a document: \<open>at_path j [Key ''meshes'', Idx 0]\<close> is \<^verbatim>\<open>j.meshes[0]\<close>, and
  \<open>None\<close> where JavaScript reads \<^verbatim>\<open>undefined\<close> on the way.
\<close>

datatype step = Key string | Idx nat

fun at_path :: "json \<Rightarrow> step list \<Rightarrow> json option" where
  "at_path j [] = Some j"
| "at_path j (Key k # p) = (case property j k of None \<Rightarrow> None | Some v \<Rightarrow> at_path v p)"
| "at_path j (Idx i # p) = (case j of JArr xs \<Rightarrow> if i < length xs then at_path (xs ! i) p else None | _ \<Rightarrow> None)"

text \<open>
  What stripping may change, level by level: an array keeps its length and its elements
  are related one by one; a material, a primitive, a mesh and the document keep every
  property outside the named ones.
\<close>

definition frame_items :: "(json \<Rightarrow> json \<Rightarrow> bool) \<Rightarrow> json \<Rightarrow> json \<Rightarrow> bool" where
  "frame_items R v v' \<longleftrightarrow>
     (case v of JArr xs \<Rightarrow> (\<exists>ys. v' = JArr ys \<and> list_all2 R xs ys) | _ \<Rightarrow> v' = v)"

definition frame_material :: "json \<Rightarrow> json \<Rightarrow> bool" where
  "frame_material m m' \<longleftrightarrow>
     same_except {''pbrMetallicRoughness'', ''normalTexture'', ''occlusionTexture'', ''emissiveTexture''} m m'
     \<and> rel_option (same_except {''baseColorTexture'', ''metallicRoughnessTexture''})
          (property m ''pbrMetallicRoughness'') (property m' ''pbrMetallicRoughness'')"

definition frame_primitive :: "json \<Rightarrow> json \<Rightarrow> bool" where
  "frame_primitive q q' \<longleftrightarrow>
     same_except {''attributes''} q q'
     \<and> rel_option (same_except {''NORMAL'', ''TEXCOORD_0'', ''TEXCOORD_1'', ''TANGENT'', ''COLOR_0''})
          (property q ''attributes'') (property q' ''attributes'')"

definition frame_mesh :: "json \<Rightarrow> json \<Rightarrow> bool" where
  "frame_mesh m m' \<longleftrightarrow>
     same_except {''primitives''} m m'
     \<and> rel_option (frame_items frame_primitive) (property m ''primitives'') (property m' ''primitives'')"

definition frame_scene :: "json \<Rightarrow> json \<Rightarrow> bool" where
  "frame_scene x y \<longleftrightarrow>
     same_except {''images'', ''textures'', ''samplers'', ''materials'', ''meshes''} x y
     \<and> rel_option (frame_items frame_material) (property x ''materials'') (property y ''materials'')
     \<and> rel_option (frame_items frame_mesh) (property x ''meshes'') (property y ''meshes'')"

text \<open>
  The shape of a scene description: an object whose \<^verbatim>\<open>materials\<close> and \<^verbatim>\<open>meshes\<close>,
  when present, are arrays of objects, and whose meshes have \<^verbatim>\<open>primitives\<close> that, when
  present, are arrays of objects.
\<close>

definition items_ok :: "(json \<Rightarrow> bool) \<Rightarrow> json option \<Rightarrow> bool" where
  "items_ok P v = (case v of None \<Rightarrow> True | Some (JArr xs) \<Rightarrow> list_all P xs | Some _ \<Rightarrow> False)"

definition is_mesh :: "json \<Rightarrow> bool" where
  "is_mesh m \<longleftrightarrow> is_obj m \<and> items_ok is_obj (property m ''primitives'')"

definition is_scene :: "json \<Rightarrow> bool" where
  "is_scene x \<longleftrightarrow>
     is_obj x \<and> items_ok is_obj (property x ''materials'') \<and> items_ok is_mesh (property x ''meshes'')"

section \<open>Example states and documents\<close>

text \<open>
  A viewer in a square container as the constructor leaves it (field of view 45, camera
  at (5,5,5), orbit target at the origin, no limit on the orbit distance, no model
  loaded); a cube of size (2,2,2) centred at the origin; a box that is a single point;
  and a stand-in for \<^verbatim>\<open>camera.lookAt\<close> that writes the orientation.
\<close>

definition sample_viewer :: viewer where
  "sample_viewer =
     \<lparr>camera_fov = Num 45, camera_aspect = Num 1, camera_near = Num (1 / 10),
      camera_far = Num 1000, camera_position = Vector3 (Num 5) (Num 5) (Num 5),
      camera_quaternion = (Num 0, Num 0, Num 0, Num 1),
      controls_target = Vector3 (Num 0) (Num 0) (Num 0), controls_maxDistance = PosInf,
      model = None\<rparr>"

definition cube2 :: Object3D where
  "cube2 = Box3 (Vector3 (Num (- 1)) (Num (- 1)) (Num (- 1))) (Vector3 (Num 1) (Num 1) (Num 1))"


definition turn_camera :: "Vector3 \<Rightarrow> viewer \<Rightarrow> viewer" where
  "turn_camera target w = w\<lparr>camera_quaternion := (Num 1, Num 0, Num 0, Num 0)\<rparr>"

text \<open>
  A document with an image, a textured material and a primitive with normals, and what
  stripping leaves of it; a document without materials and textures whose primitive has
  normals; and a document with nothing to strip.
\<close>

definition sample_scene :: json where
  "sample_scene =
     JObj [(''asset'', JObj [(''version'', JStr ''2.0'')]),
           (''images'', JArr [JObj [(''uri'', JStr ''a.png'')]]),
           (''materials'',
              JArr [JObj [(''name'', JStr ''m''),
                          (''pbrMetallicRoughness'',
                             JObj [(''baseColorTexture'', JObj [(''index'', JNum 0)]),
                                   (''metallicFactor'', JNum 1)]),
                          (''normalTexture'', JObj [(''index'', JNum 0)])]]),
           (''meshes'',
              JArr [JObj [(''primitives'',
                 JArr [JObj [(''attributes'', JObj [(''POSITION'', JNum 0), (''NORMAL'', JNum 1)]),
                             (''indices'', JNum 2)]])]])]"

definition sample_stripped :: json where
  "sample_stripped =
     JObj [(''asset'', JObj [(''version'', JStr ''2.0'')]),
           (''materials'',
              JArr [JObj [(''name'', JStr ''m''),
                          (''pbrMetallicRoughness'', JObj [(''metallicFactor'', JNum 1)])]]),
           (''meshes'',
              JArr [JObj [(''primitives'',
                 JArr [JObj [(''attributes'', JObj [(''POSITION'', JNum 0)]),
                             (''indices'', JNum 2)]])]])]"

definition normals_scene :: json where
  "normals_scene =
     JObj [(''meshes'',
              JArr [JObj [(''primitives'',
                 JArr [JObj [(''attributes'', JObj [(''POSITION'', JNum 0), (''NORMAL'', JNum 1)])]])]])]"

definition bare_scene :: json where
  "bare_scene =
     JObj [(''asset'', JObj [(''version'', JStr ''2.0'')]),
           (''meshes'',
              JArr [JObj [(''primitives'',
                 JArr [JObj [(''attributes'', JObj [(''POSITION'', JNum 0)]),
                             (''indices'', JNum 1)]])]])]"

section \<open>Facts about the camera fit\<close>

lemma rnd_exact [simp]: "rnd exact = Num"
  by (simp add: exact_def)

lemma Math_atan_exact [simp]: "Math_atan exact (Num a) = Num (arctan a)"
  by (simp add: exact_def exact_atan_def)

lemma rounding_exact: "rounding exact"
  by (auto simp: rounding_def num_le_def)

lemmas vec_defs = sub_def addVectors_def multiplyScalar_def divideScalar_def normalize_def
  length_v_def min_v_def max_v_def num_sub_def

lemmas box_defs = selection_box_def expandByObject_def union_box_def makeEmpty_def isEmpty_def
  getSize_def getCenter_def Math_max_def Math_min_def

lemma selection_box_Nil: "selection_box [] = makeEmpty"
  by (simp add: selection_box_def)

lemma isEmpty_makeEmpty: "isEmpty makeEmpty"
  by (simp add: isEmpty_def makeEmpty_def)

lemma selection_box_cube2: "selection_box [cube2] = cube2"
  by (simp add: box_defs vec_defs cube2_def)


lemma maxSize_cube2: "maxSize exact [cube2] = Num 2"
  by (simp add: maxSize_def selection_box_cube2) (simp add: box_defs vec_defs cube2_def)

lemma getCenter_cube2: "getCenter exact (selection_box [cube2]) = Vector3 (Num 0) (Num 0) (Num 0)"
  by (simp add: selection_box_cube2) (simp add: box_defs vec_defs cube2_def)


lemma maxSize_Nil: "maxSize fp [] = Num 0"
  by (simp add: maxSize_def selection_box_Nil getSize_def isEmpty_makeEmpty Math_max_def)

lemma getCenter_Nil: "getCenter fp (selection_box []) = Vector3 (Num 0) (Num 0) (Num 0)"
  by (simp add: selection_box_Nil getCenter_def isEmpty_makeEmpty)

lemma fit_assignments_fields:
  "fit_assignments fp v selection fitOffset =
     v\<lparr>controls_maxDistance := num_mul fp (distance fp v selection fitOffset) (Num 10),
       controls_target := getCenter fp (selection_box selection),
       camera_near := num_div fp (distance fp v selection fitOffset) (Num 100),
       camera_far := num_mul fp (distance fp v selection fitOffset) (Num 100),
       camera_position :=
         sub fp (getCenter fp (selection_box selection)) (direction fp v selection fitOffset)\<rparr>"
  by (simp add: fit_assignments_def Let_def)

lemma distance_cube2:
  assumes "camera_fov v = Num 45" and "camera_aspect v = Num 1"
  shows "distance exact v [cube2] (Num k) = Num (k * (2 / (2 * arctan (pi * 45 / 360))))"
  by (simp add: distance_def fitWidthDistance_def fitHeightDistance_def maxSize_cube2
      assms Math_PI_def Math_max_def)


lemma distance_sample_cube2:
  "distance exact sample_viewer [cube2] (Num k) = Num (k * (2 / (2 * arctan (pi * 45 / 360))))"
  by (rule distance_cube2) (simp_all add: sample_viewer_def)


lemma arctan_le_self_nonneg:
  fixes x :: real
  assumes "0 \<le> x"
  shows "arctan x \<le> x"
proof -
  have "(\<lambda>t. t - arctan t) 0 \<le> (\<lambda>t. t - arctan t) x"
  proof (rule DERIV_nonneg_imp_nondecreasing [OF assms])
    fix t :: real
    have "((\<lambda>t. t - arctan t) has_real_derivative (1 - inverse (1 + t\<^sup>2))) (at t)"
      by (auto intro!: derivative_eq_intros)
    moreover have "0 \<le> 1 - inverse (1 + t\<^sup>2)"
      by (simp add: inverse_le_1_iff)
    ultimately show "\<exists>y. ((\<lambda>t. t - arctan t) has_real_derivative y) (at t) \<and> 0 \<le> y"
      by blast
  qed
  then show ?thesis by simp
qed

lemma pi_less_16_5: "pi < 16 / 5"
proof -
  have a: "arctan (1 / 5) \<le> 1 / 5"
    by (rule arctan_le_self_nonneg) simp
  have b: "0 < arctan (1 / 239)"
    by simp
  from machin a b show ?thesis by linarith
qed

lemma tan_pi_8_lower: "12 / 29 < tan (pi / 8)"
proof -
  define t where "t = tan (pi / 8)"
  have c8: "cos (pi / 8) \<noteq> 0"
    by (rule cos_gt_zero_pi [THEN less_imp_neq, symmetric]) (use pi_gt_zero in auto)
  have c4: "cos (2 * (pi / 8)) \<noteq> 0"
    by (simp add: cos_45)
  have "tan (2 * (pi / 8)) = 2 * t / (1 - t\<^sup>2)"
    unfolding t_def by (rule tan_double [OF c8 c4])
  then have eq: "2 * t / (1 - t\<^sup>2) = 1"
    by (simp add: tan_45)
  then have nz: "1 - t\<^sup>2 \<noteq> 0"
    by auto
  with eq have "2 * t = 1 - t\<^sup>2"
    by (simp add: field_simps)
  then have sq: "(t + 1)\<^sup>2 = 2"
    by (simp add: power2_eq_square algebra_simps)
  have tpos: "0 < t"
    unfolding t_def by (rule tan_gt_zero) (use pi_gt_zero in auto)
  show ?thesis
  proof (rule ccontr)
    assume "\<not> 12 / 29 < tan (pi / 8)"
    then have "t \<le> 12 / 29" by (simp add: t_def)
    with tpos have "(t + 1)\<^sup>2 \<le> (41 / 29)\<^sup>2"
      by (intro power_mono) auto
    with sq show False by (simp add: power2_eq_square)
  qed
qed

lemma scenario_bounds:
  "3 < (12 / 10) * (2 / (2 * arctan (pi * 45 / 360)))"
  "(12 / 10) * (2 / (2 * tan (pi * 45 / 360))) < (29 / 10 :: real)"
proof -
  have p: "pi * 45 / 360 = pi / 8" by simp
  have a0: "0 < arctan (pi / 8)" by simp
  have "arctan (pi / 8) \<le> pi / 8"
    by (rule arctan_le_self_nonneg) simp
  with pi_less_16_5 have a1: "arctan (pi / 8) < 2 / 5" by linarith
  from a0 a1 have "3 < (12 / 10) * (2 / (2 * arctan (pi / 8)))"
    by (simp add: field_simps)
  then show "3 < (12 / 10) * (2 / (2 * arctan (pi * 45 / 360)))"
    unfolding p .
  have "12 / 29 < tan (pi / 8)" by (rule tan_pi_8_lower)
  then have "(12 / 10) * (2 / (2 * tan (pi / 8))) < 29 / 10"
    by (simp add: field_simps)
  then show "(12 / 10) * (2 / (2 * tan (pi * 45 / 360))) < (29 / 10 :: real)"
    unfolding p .
qed

text \<open>
  Claim C1. The fit distance is the margin factor times the larger of the vertical fit
  distance \<open>maxDimension / (2 * tan (pi * fov / 360))\<close> and that distance divided by the
  aspect; for a box of size (2,2,2), fov 45, aspect 1 and margin 1.2 it is about 2.9.
  The source applies \<^verbatim>\<open>Math.atan\<close> where the formula has the tangent. At the
  scenario, in arithmetic without rounding, the function computes
  \<open>1.2 * (2 / (2 * arctan (pi * 45 / 360)))\<close>, which is more than 3, while the formula with
  the tangent gives less than 2.9.
\<close>

theorem distance_scenario:
  "distance exact sample_viewer [cube2] (Num (12 / 10)) =
     Num ((12 / 10) * (2 / (2 * arctan (pi * 45 / 360))))
   \<and> num_less (Num 3) (distance exact sample_viewer [cube2] (Num (12 / 10)))
   \<and> (12 / 10) * (2 / (2 * tan (pi * 45 / 360))) < (29 / 10 :: real)"
  using scenario_bounds by (simp only: distance_sample_cube2 num_less.simps simp_thms)

text \<open>
  Claim C2 says that an empty selection makes the fit fail with \<open>EmptyInputError\<close>. On
  the sample viewer the function completes normally: the box stays empty, its size and
  centre are the zero vector, and all distances become zero.
\<close>

theorem fit_empty_selection_counterexample:
  "fitCameraToSelection exact id sample_viewer [] (Num (12 / 10)) =
     Inr (sample_viewer\<lparr>controls_maxDistance := Num 0, camera_near := Num 0,
                        camera_far := Num 0,
                        camera_position := Vector3 (Num 0) (Num 0) (Num 0)\<rparr>)
   \<and> fitCameraToSelection exact id sample_viewer [] (Num (12 / 10)) \<noteq> Inl EmptyInputError"
  by (simp add: fitCameraToSelection_def fit_assignments_fields direction_def distance_def
      fitWidthDistance_def fitHeightDistance_def maxSize_Nil getCenter_Nil Math_PI_def
      Math_max_def vec_defs or_else_def sample_viewer_def)

lemma fitHeightDistance_divisor:
  "fitHeightDistance fp v selection = num_div fp (maxSize fp selection) (fit_divisor fp v)"
  by (simp add: fitHeightDistance_def fit_divisor_def)

lemma div_zero_by:
  assumes "rnd fp 0 = Num 0" and "d \<noteq> Num 0" and "d \<noteq> NaN"
  shows "num_div fp (Num 0) d = Num 0"
  using assms by (cases d) auto

lemma mul_zero_finite:
  assumes "rnd fp 0 = Num 0" and "finite_num x"
  shows "num_mul fp x (Num 0) = Num 0"
  using assms by (cases x) auto

lemma mul_finite_zero:
  assumes "rnd fp 0 = Num 0" and "finite_num x"
  shows "num_mul fp (Num 0) x = Num 0"
  using assms by (cases x) auto

lemma distance_empty:
  assumes r: "rounding fp"
    and d: "fit_divisor fp v \<noteq> Num 0" "fit_divisor fp v \<noteq> NaN"
    and a: "camera_aspect v \<noteq> Num 0" "camera_aspect v \<noteq> NaN"
    and k: "finite_num fitOffset"
  shows "distance fp v [] fitOffset = Num 0"
proof -
  from r have z: "rnd fp 0 = Num 0" by (simp add: rounding_def)
  have h: "fitHeightDistance fp v [] = Num 0"
    by (simp add: fitHeightDistance_divisor maxSize_Nil div_zero_by [OF z d])
  then have w: "fitWidthDistance fp v [] = Num 0"
    by (simp add: fitWidthDistance_def div_zero_by [OF z a])
  from h w show ?thesis
    by (simp add: distance_def Math_max_def mul_zero_finite [OF z k])
qed

text \<open>
  Claim C2, as the code has it. With an empty selection the fit does not fail: it
  completes and assigns the camera parameters. The box stays empty, so its size and centre
  are the zero vector, the largest extent is zero and the orbit target is put at the
  origin. When the divisor \<^verbatim>\<open>2 * Math.atan(Math.PI * camera.fov / 360)\<close> and the aspect
  are neither zero nor \<^verbatim>\<open>NaN\<close> and the margin factor is finite, the distance, the clip
  planes and the orbit limit are zero, and the camera is put at the origin when the
  normalized view direction is finite.
\<close>

theorem fit_empty_selection:
  assumes r: "rounding fp"
  shows "fitCameraToSelection fp controls_update v [] fitOffset =
           Inr (controls_update (fit_assignments fp v [] fitOffset))
    \<and> getSize fp (selection_box []) = zero_v
    \<and> getCenter fp (selection_box []) = zero_v
    \<and> maxSize fp [] = Num 0
    \<and> controls_target (fit_assignments fp v [] fitOffset) = zero_v
    \<and> (fit_divisor fp v \<noteq> Num 0 \<and> fit_divisor fp v \<noteq> NaN
        \<and> camera_aspect v \<noteq> Num 0 \<and> camera_aspect v \<noteq> NaN \<and> finite_num fitOffset \<longrightarrow>
          distance fp v [] fitOffset = Num 0
          \<and> camera_near (fit_assignments fp v [] fitOffset) = Num 0
          \<and> camera_far (fit_assignments fp v [] fitOffset) = Num 0
          \<and> controls_maxDistance (fit_assignments fp v [] fitOffset) = Num 0
          \<and> (finite_v (normalize fp (sub fp (controls_target v) (camera_position v))) \<longrightarrow>
               camera_position (fit_assignments fp v [] fitOffset) = zero_v))"
proof -
  from r have z: "rnd fp 0 = Num 0" by (simp add: rounding_def)
  have 1: "getSize fp (selection_box []) = zero_v"
    by (simp add: selection_box_Nil getSize_def isEmpty_makeEmpty zero_v_def)
  have 2: "getCenter fp (selection_box []) = zero_v"
    by (simp add: getCenter_Nil zero_v_def)
  have 3: "controls_target (fit_assignments fp v [] fitOffset) = zero_v"
    by (simp add: fit_assignments_fields 2)
  have 4: "distance fp v [] fitOffset = Num 0
          \<and> camera_near (fit_assignments fp v [] fitOffset) = Num 0
          \<and> camera_far (fit_assignments fp v [] fitOffset) = Num 0
          \<and> controls_maxDistance (fit_assignments fp v [] fitOffset) = Num 0
          \<and> (finite_v (normalize fp (sub fp (controls_target v) (camera_position v))) \<longrightarrow>
               camera_position (fit_assignments fp v [] fitOffset) = zero_v)"
    if h: "fit_divisor fp v \<noteq> Num 0" "fit_divisor fp v \<noteq> NaN"
        "camera_aspect v \<noteq> Num 0" "camera_aspect v \<noteq> NaN" "finite_num fitOffset"
  proof -
    have d: "distance fp v [] fitOffset = Num 0"
      using r h by (rule distance_empty)
    have p: "camera_position (fit_assignments fp v [] fitOffset) = zero_v"
      if "finite_v (normalize fp (sub fp (controls_target v) (camera_position v)))"
      using that
      by (simp add: fit_assignments_fields direction_def d 2 finite_v_def zero_v_def sub_def
          multiplyScalar_def mul_zero_finite [OF z] num_sub_def z)
    from d p show ?thesis
      by (simp add: fit_assignments_fields z)
  qed
  from 1 2 3 4 show ?thesis
    by (simp add: fitCameraToSelection_def maxSize_Nil)
qed

theorem fit_empty_selection_witness:
  "rounding exact
   \<and> fit_divisor exact sample_viewer \<noteq> Num 0 \<and> fit_divisor exact sample_viewer \<noteq> NaN
   \<and> camera_aspect sample_viewer \<noteq> Num 0 \<and> camera_aspect sample_viewer \<noteq> NaN
   \<and> finite_num (Num (12 / 10))
   \<and> finite_v (normalize exact (sub exact (controls_target sample_viewer)
                                           (camera_position sample_viewer)))
   \<and> distance exact sample_viewer [] (Num (12 / 10)) = Num 0
   \<and> camera_near (fit_assignments exact sample_viewer [] (Num (12 / 10))) = Num 0
   \<and> camera_far (fit_assignments exact sample_viewer [] (Num (12 / 10))) = Num 0
   \<and> controls_maxDistance (fit_assignments exact sample_viewer [] (Num (12 / 10))) = Num 0
   \<and> camera_position (fit_assignments exact sample_viewer [] (Num (12 / 10))) = zero_v"
proof -
  have d: "fit_divisor exact sample_viewer \<noteq> Num 0 \<and> fit_divisor exact sample_viewer \<noteq> NaN"
    by (simp add: fit_divisor_def Math_PI_def sample_viewer_def)
  have a: "camera_aspect sample_viewer \<noteq> Num 0 \<and> camera_aspect sample_viewer \<noteq> NaN"
    by (simp add: sample_viewer_def)
  have n: "finite_v (normalize exact (sub exact (controls_target sample_viewer)
                                           (camera_position sample_viewer)))"
    by (simp add: finite_v_def vec_defs or_else_def sample_viewer_def)
  from fit_empty_selection [OF rounding_exact, of id sample_viewer "Num (12 / 10)"]
    rounding_exact d a n
  show ?thesis by simp
qed

text \<open>
  The guard on the divisor is needed: with a field of view of zero the divisor is zero and
  the distance for an empty selection is \<^verbatim>\<open>NaN\<close>.
\<close>

lemma fit_empty_selection_zero_fov:
  "fit_divisor exact (sample_viewer\<lparr>camera_fov := Num 0\<rparr>) = Num 0
   \<and> distance exact (sample_viewer\<lparr>camera_fov := Num 0\<rparr>) [] (Num (12 / 10)) = NaN"
  by (simp add: fit_divisor_def distance_def fitWidthDistance_def fitHeightDistance_def
      maxSize_Nil Math_PI_def Math_max_def sample_viewer_def)

lemma settled_rnd: "rounding fp \<Longrightarrow> settled fp (rnd fp x)"
  by (auto simp: settled_def rounding_def)

lemma settled_special [simp]: "settled fp PosInf" "settled fp NegInf" "settled fp NaN"
  by (simp_all add: settled_def)

lemma settled_zero: "rounding fp \<Longrightarrow> settled fp (Num 0)"
  by (simp add: settled_def rounding_def)

lemma settled_mul:
  assumes "rounding fp"
  shows "settled fp (num_mul fp x y)"
  by (cases x; cases y) (simp_all add: settled_rnd [OF assms] signed_inf_def)

lemma sub_zero_settled:
  assumes "settled fp x"
  shows "num_sub fp x (Num 0) = x"
  using assms by (cases x) (simp_all add: num_sub_def settled_def)

lemma settled_getCenter:
  assumes r: "rounding fp"
  shows "settled fp (vx (getCenter fp b))" "settled fp (vy (getCenter fp b))"
    "settled fp (vz (getCenter fp b))"
  by (simp_all add: getCenter_def multiplyScalar_def settled_mul [OF r] settled_zero [OF r])

lemma sub_zero_v:
  assumes "settled fp (vx a)" "settled fp (vy a)" "settled fp (vz a)"
  shows "sub fp a zero_v = a"
  using assms by (cases a) (simp add: sub_def zero_v_def sub_zero_settled)

lemma normalize_zero_v:
  assumes "rounding fp"
  shows "normalize fp zero_v = zero_v"
proof -
  from assms have z: "rnd fp 0 = Num 0" and o: "rnd fp 1 = Num 1"
    by (simp_all add: rounding_def)
  have "length_v fp zero_v = Num 0"
    by (simp add: length_v_def zero_v_def z)
  then show ?thesis
    by (simp add: normalize_def or_else_def divideScalar_def multiplyScalar_def zero_v_def z o)
qed

lemma zero_v_times_finite:
  assumes "rounding fp" and "finite_num d"
  shows "multiplyScalar fp zero_v d = zero_v"
proof -
  from assms(1) have z: "rnd fp 0 = Num 0" by (simp add: rounding_def)
  show ?thesis
    by (simp add: multiplyScalar_def zero_v_def mul_finite_zero [OF z assms(2)])
qed

text \<open>
  Claim C3 says that a view direction of length zero makes the fit fail with
  \<open>DegenerateDirectionError\<close>. With the camera on the orbit target the function completes
  normally and leaves the camera at the centre of the cube.
\<close>

theorem fit_degenerate_direction_counterexample:
  "fitCameraToSelection exact id (sample_viewer\<lparr>camera_position := Vector3 (Num 0) (Num 0) (Num 0)\<rparr>)
       [cube2] (Num (12 / 10)) =
     Inr (sample_viewer
            \<lparr>controls_maxDistance := Num ((12 / 10) * (2 / (2 * arctan (pi * 45 / 360))) * 10),
             camera_near := Num ((12 / 10) * (2 / (2 * arctan (pi * 45 / 360))) / 100),
             camera_far := Num ((12 / 10) * (2 / (2 * arctan (pi * 45 / 360))) * 100),
             camera_position := Vector3 (Num 0) (Num 0) (Num 0)\<rparr>)
   \<and> fitCameraToSelection exact id
         (sample_viewer\<lparr>camera_position := Vector3 (Num 0) (Num 0) (Num 0)\<rparr>)
         [cube2] (Num (12 / 10))
       \<noteq> Inl DegenerateDirectionError"
proof -
  let ?v = "sample_viewer\<lparr>camera_position := Vector3 (Num 0) (Num 0) (Num 0)\<rparr>"
  have d: "distance exact ?v [cube2] (Num k) = Num (k * (2 / (2 * arctan (pi * 45 / 360))))" for k
    by (rule distance_cube2) (simp_all add: sample_viewer_def)
  show ?thesis
    by (simp add: fitCameraToSelection_def fit_assignments_fields direction_def d getCenter_cube2)
      (simp add: vec_defs or_else_def sample_viewer_def)
qed

text \<open>
  Claim C3, as the code has it. When the vector from the camera to the orbit target is
  the zero vector, the fit does not fail: \<^verbatim>\<open>normalize\<close> replaces the length zero by one,
  so the normalized direction is the zero vector; the orbit target is put at the centre of
  the selection's box, and so is the camera when the distance is finite (zero times an
  infinite distance is \<^verbatim>\<open>NaN\<close>).
\<close>

theorem fit_degenerate_direction:
  assumes r: "rounding fp"
    and z: "sub fp (controls_target v) (camera_position v) = zero_v"
  shows "fitCameraToSelection fp controls_update v selection fitOffset =
           Inr (controls_update (fit_assignments fp v selection fitOffset))
    \<and> normalize fp (sub fp (controls_target v) (camera_position v)) = zero_v
    \<and> controls_target (fit_assignments fp v selection fitOffset) =
        getCenter fp (selection_box selection)
    \<and> (finite_num (distance fp v selection fitOffset) \<longrightarrow>
          direction fp v selection fitOffset = zero_v
          \<and> camera_position (fit_assignments fp v selection fitOffset) =
              getCenter fp (selection_box selection))"
proof -
  have n: "normalize fp (sub fp (controls_target v) (camera_position v)) = zero_v"
    by (simp add: z normalize_zero_v [OF r])
  have p: "direction fp v selection fitOffset = zero_v
          \<and> camera_position (fit_assignments fp v selection fitOffset) =
              getCenter fp (selection_box selection)"
    if f: "finite_num (distance fp v selection fitOffset)"
  proof -
    have d: "direction fp v selection fitOffset = zero_v"
      by (simp add: direction_def n zero_v_times_finite [OF r f])
    then show ?thesis
      by (simp add: fit_assignments_fields sub_zero_v [OF settled_getCenter [OF r]])
  qed
  have t: "controls_target (fit_assignments fp v selection fitOffset) =
        getCenter fp (selection_box selection)"
    by (simp add: fit_assignments_fields)
  have c: "fitCameraToSelection fp controls_update v selection fitOffset =
           Inr (controls_update (fit_assignments fp v selection fitOffset))"
    by (simp add: fitCameraToSelection_def)
  from c n t p show ?thesis by blast
qed

theorem fit_degenerate_direction_witness:
  "rounding exact
   \<and> sub exact (controls_target (sample_viewer\<lparr>camera_position := Vector3 (Num 0) (Num 0) (Num 0)\<rparr>))
               (camera_position (sample_viewer\<lparr>camera_position := Vector3 (Num 0) (Num 0) (Num 0)\<rparr>)) =
       zero_v
   \<and> finite_num (distance exact (sample_viewer\<lparr>camera_position := Vector3 (Num 0) (Num 0) (Num 0)\<rparr>)
                    [cube2] (Num (12 / 10)))
   \<and> camera_position
        (fit_assignments exact (sample_viewer\<lparr>camera_position := Vector3 (Num 0) (Num 0) (Num 0)\<rparr>)
           [cube2] (Num (12 / 10))) =
       Vector3 (Num 0) (Num 0) (Num 0)"
proof -
  let ?v = "sample_viewer\<lparr>camera_position := Vector3 (Num 0) (Num 0) (Num 0)\<rparr>"
  have z: "sub exact (controls_target ?v) (camera_position ?v) = zero_v"
    by (simp add: sub_def num_sub_def zero_v_def sample_viewer_def)
  have "distance exact ?v [cube2] (Num (12 / 10)) =
          Num ((12 / 10) * (2 / (2 * arctan (pi * 45 / 360))))"
    by (rule distance_cube2) (simp_all add: sample_viewer_def)
  then have f: "finite_num (distance exact ?v [cube2] (Num (12 / 10)))"
    by (simp only: finite_num.simps)
  from fit_degenerate_direction [OF rounding_exact z, of id "[cube2]" "Num (12 / 10)"]
    rounding_exact z f
  show ?thesis by (simp add: getCenter_cube2)
qed

text \<open>
  The condition on the distance is needed: with an infinite margin factor the distance is
  infinite and the camera position is \<^verbatim>\<open>NaN\<close>.
\<close>

lemma fit_degenerate_direction_infinite_distance:
  "distance exact (sample_viewer\<lparr>camera_position := Vector3 (Num 0) (Num 0) (Num 0)\<rparr>)
     [cube2] PosInf = PosInf
   \<and> camera_position
        (fit_assignments exact (sample_viewer\<lparr>camera_position := Vector3 (Num 0) (Num 0) (Num 0)\<rparr>)
           [cube2] PosInf) =
       Vector3 NaN NaN NaN"
proof -
  let ?v = "sample_viewer\<lparr>camera_position := Vector3 (Num 0) (Num 0) (Num 0)\<rparr>"
  have d: "distance exact ?v [cube2] PosInf = PosInf"
    by (simp add: distance_def fitWidthDistance_def fitHeightDistance_def maxSize_cube2
        Math_PI_def Math_max_def sample_viewer_def signed_inf_def)
  show ?thesis
    by (simp add: fit_assignments_fields direction_def d getCenter_cube2)
      (simp add: vec_defs or_else_def sample_viewer_def)
qed







text \<open>
  Claim C10. When no model has been loaded, \<^verbatim>\<open>setCameraView\<close> returns at once for every
  view name: the viewer state, and with it the camera position, the camera orientation
  and the orbit target, is unchanged.
\<close>

theorem setCameraView_without_model:
  assumes "model v = None"
  shows "setCameraView fp lookAt controls_update v view = v"
  using assms by (simp add: setCameraView_def)

theorem setCameraView_without_model_witness:
  "model sample_viewer = None
   \<and> setCameraView exact turn_camera id sample_viewer ''top'' = sample_viewer"
proof -
  have m: "model sample_viewer = None" by (simp add: sample_viewer_def)
  from setCameraView_without_model [OF m, of exact turn_camera id "''top''"] m
  show ?thesis by simp
qed

section \<open>Facts about stripping\<close>

lemma bind_Inr_iff: "bind m f = Inr y \<longleftrightarrow> (\<exists>x. m = Inr x \<and> f x = Inr y)"
  by (cases m) (simp_all add: bind_def)

lemma bind_Inr [simp]: "bind (Inr x) f = f x"
  by (simp add: bind_def)

lemma bind_Inl [simp]: "bind (Inl e) f = Inl e"
  by (simp add: bind_def)

lemma bind_assoc: "bind (bind m f) g = bind m (\<lambda>x. bind (f x) g)"
  by (cases m) simp_all

lemma bind_Inr_right: "bind m Inr = m"
  by (cases m) simp_all

lemma truthy_not_null: "truthy j \<Longrightarrow> j \<noteq> JNull"
  by (cases j) simp_all

lemma same_except_refl: "same_except K a a"
  by (simp add: same_except_def)

lemma same_except_trans:
  "same_except K a b \<Longrightarrow> same_except L b c \<Longrightarrow> same_except (K \<union> L) a c"
  by (auto simp: same_except_def split: if_splits)

lemma same_except_mono: "same_except K a b \<Longrightarrow> K \<subseteq> L \<Longrightarrow> same_except L a b"
  by (auto simp: same_except_def)

lemma same_except_property: "same_except K a b \<Longrightarrow> k \<notin> K \<Longrightarrow> property b k = property a k"
  by (simp add: same_except_def)

lemma same_except_null: "same_except K a b \<Longrightarrow> b = JNull \<longleftrightarrow> a = JNull"
  by (cases a; cases b) (auto simp: same_except_def)

lemma same_except_truthy: "same_except K a b \<Longrightarrow> truthy b = truthy a"
  by (cases a; cases b) (auto simp: same_except_def)

subsection \<open>delete\<close>

lemma delete_prop_Inr:
  assumes "delete_prop j k = Inr j'"
  shows "j \<noteq> JNull" and "same_except {k} j j'" and "property j' k = None"
  using assms by (cases j; auto simp: same_except_def delete_conv)+

lemma delete_prop_absent: "j \<noteq> JNull \<Longrightarrow> property j k = None \<Longrightarrow> delete_prop j k = Inr j"
  by (cases j) (auto simp: map_of_eq_None_iff)

lemma delete_prop_total: "j \<noteq> JNull \<Longrightarrow> \<exists>j'. delete_prop j k = Inr j'"
  by (cases j) auto

lemma delete_props_Inr:
  "delete_props j ks = Inr j' \<Longrightarrow>
     same_except (set ks) j j' \<and> (\<forall>k\<in>set ks. property j' k = None) \<and> (ks \<noteq> [] \<longrightarrow> j \<noteq> JNull)"
proof (induction ks arbitrary: j)
  case Nil
  then show ?case by (simp add: same_except_refl)
next
  case (Cons k ks)
  from Cons.prems obtain j1 where 1: "delete_prop j k = Inr j1" and 2: "delete_props j1 ks = Inr j'"
    by (auto simp: bind_Inr_iff)
  note d = delete_prop_Inr [OF 1] and r = Cons.IH [OF 2]
  have "same_except ({k} \<union> set ks) j j'"
    using d(2) r by (blast intro: same_except_trans)
  moreover have "property j' k = None"
  proof (cases "k \<in> set ks")
    case True
    with r show ?thesis by blast
  next
    case False
    with r d(3) same_except_property [of "set ks" j1 j' k] show ?thesis by simp
  qed
  ultimately show ?case using d(1) r by simp
qed

lemma delete_props_absent:
  "j \<noteq> JNull \<Longrightarrow> \<forall>k\<in>set ks. property j k = None \<Longrightarrow> delete_props j ks = Inr j"
  by (induction ks) (simp_all add: delete_prop_absent)

lemma delete_props_total: "j \<noteq> JNull \<Longrightarrow> \<exists>j'. delete_props j ks = Inr j'"
proof (induction ks arbitrary: j)
  case Nil
  then show ?case by simp
next
  case (Cons k ks)
  from delete_prop_total [OF Cons.prems] obtain j1 where 1: "delete_prop j k = Inr j1" ..
  from delete_prop_Inr(2) [OF 1] Cons.prems have "j1 \<noteq> JNull"
    by (simp add: same_except_null)
  from Cons.IH [OF this] 1 show ?case by simp
qed

lemma delete_props_idem: "delete_props j ks = Inr j' \<Longrightarrow> delete_props j' ks = Inr j'"
proof (cases "ks = []")
  case True
  then show "delete_props j ks = Inr j' \<Longrightarrow> delete_props j' ks = Inr j'" by simp
next
  case False
  assume a: "delete_props j ks = Inr j'"
  note r = delete_props_Inr [OF a]
  with False same_except_null [of "set ks" j j'] have "j' \<noteq> JNull" by simp
  with r show "delete_props j' ks = Inr j'" by (simp add: delete_props_absent)
qed

subsection \<open>put\<close>

lemma put_prop_same: "property obj k = Some v \<Longrightarrow> put_prop obj k v = obj"
  by (cases obj) (simp_all add: update_triv)

lemma property_put_prop:
  "property obj k \<noteq> None \<Longrightarrow> property (put_prop obj k v) k' = (if k' = k then Some v else property obj k')"
  by (cases obj) (simp_all add: update_conv')

lemma put_prop_same_except: "property obj k \<noteq> None \<Longrightarrow> same_except {k} obj (put_prop obj k v)"
  by (cases obj) (simp_all add: same_except_def update_conv')

subsection \<open>a property that is visited when truthy\<close>

lemma get_prop_Inr: "obj \<noteq> JNull \<Longrightarrow> get_prop obj k = Inr (property obj k)"
  by (cases obj) simp_all

lemma get_prop_null: "get_prop obj k = Inr v \<Longrightarrow> obj \<noteq> JNull"
  by (cases obj) simp_all

lemma on_truthy_Inr:
  assumes "on_truthy obj k g = Inr obj'"
  shows "obj \<noteq> JNull"
    and "same_except {k} obj obj'"
    and "rel_option (\<lambda>x x'. if truthy x then g x = Inr x' else x' = x)
           (property obj k) (property obj' k)"
proof -
  from assms show n: "obj \<noteq> JNull"
    by (auto simp: on_truthy_def bind_Inr_iff dest: get_prop_null)
  show "same_except {k} obj obj'"
    using assms n
    by (auto simp: on_truthy_def get_prop_Inr bind_Inr_iff same_except_refl put_prop_same_except
        split: option.splits if_splits)
  show "rel_option (\<lambda>x x'. if truthy x then g x = Inr x' else x' = x)
           (property obj k) (property obj' k)"
    using assms n
    by (auto simp: on_truthy_def get_prop_Inr bind_Inr_iff property_put_prop
        split: option.splits if_splits)
qed

lemma on_truthy_fixed:
  assumes "obj \<noteq> JNull" and "\<And>x. property obj k = Some x \<Longrightarrow> truthy x \<Longrightarrow> g x = Inr x"
  shows "on_truthy obj k g = Inr obj"
  using assms by (auto simp: on_truthy_def get_prop_Inr put_prop_same split: option.splits)

lemma on_truthy_total:
  assumes "obj \<noteq> JNull" and "\<And>x. property obj k = Some x \<Longrightarrow> truthy x \<Longrightarrow> \<exists>x'. g x = Inr x'"
  shows "\<exists>obj'. on_truthy obj k g = Inr obj'"
  using assms by (fastforce simp: on_truthy_def get_prop_Inr split: option.splits)

lemma on_truthy_idem:
  assumes "on_truthy obj k g = Inr obj'" and "\<And>x x'. g x = Inr x' \<Longrightarrow> g x' = Inr x'"
  shows "on_truthy obj' k g = Inr obj'"
proof (rule on_truthy_fixed)
  from on_truthy_Inr(1,2) [OF assms(1)] show "obj' \<noteq> JNull"
    by (simp add: same_except_null)
next
  fix x' assume p: "property obj' k = Some x'" and t: "truthy x'"
  from on_truthy_Inr(3) [OF assms(1)] p obtain x
    where "if truthy x then g x = Inr x' else x' = x"
    by (auto simp: option_rel_Some2)
  with t have "g x = Inr x'" by (auto split: if_splits)
  then show "g x' = Inr x'" by (rule assms(2))
qed

subsection \<open>forEach\<close>

lemma forEach_elems_Inr: "forEach_elems f xs = Inr ys \<longleftrightarrow> list_all2 (\<lambda>x y. f x = Inr y) xs ys"
proof (induction xs arbitrary: ys)
  case Nil
  then show ?case by auto
next
  case (Cons x xs)
  then show ?case by (cases ys) (auto simp: bind_Inr_iff)
qed

lemma forEach_Inr:
  "forEach v f = Inr v' \<longleftrightarrow> (\<exists>xs ys. v = JArr xs \<and> v' = JArr ys \<and> list_all2 (\<lambda>x y. f x = Inr y) xs ys)"
  by (cases v) (auto simp: bind_Inr_iff forEach_elems_Inr)

lemma forEach_idem:
  assumes "forEach v f = Inr v'" and "\<And>x x'. f x = Inr x' \<Longrightarrow> f x' = Inr x'"
  shows "forEach v' f = Inr v'"
proof -
  from assms(1) obtain xs ys where v: "v = JArr xs" "v' = JArr ys"
    and l: "list_all2 (\<lambda>x y. f x = Inr y) xs ys"
    by (auto simp: forEach_Inr)
  from l have "list_all2 (\<lambda>x y. f x = Inr y) ys ys"
    by (auto simp: list_all2_conv_all_nth intro: assms(2))
  then have "forEach_elems f ys = Inr ys"
    by (simp add: forEach_elems_Inr)
  with v show ?thesis by simp
qed

subsection \<open>the callbacks in terms of the two patterns\<close>

lemma strip_material_alt:
  "strip_material mat =
     bind (on_truthy mat ''pbrMetallicRoughness''
             (\<lambda>p. delete_props p [''baseColorTexture'', ''metallicRoughnessTexture'']))
       (\<lambda>m1. delete_props m1 [''normalTexture'', ''occlusionTexture'', ''emissiveTexture''])"
  by (simp add: strip_material_def on_truthy_def bind_assoc bind_Inr_right cong: if_cong option.case_cong)

lemma strip_primitive_alt:
  "strip_primitive primitive =
     on_truthy primitive ''attributes''
       (\<lambda>a. delete_props a [''NORMAL'', ''TEXCOORD_0'', ''TEXCOORD_1'', ''TANGENT'', ''COLOR_0''])"
  by (simp add: strip_primitive_def on_truthy_def bind_assoc bind_Inr_right cong: if_cong option.case_cong)

lemma strip_mesh_alt:
  "strip_mesh mesh = on_truthy mesh ''primitives'' (\<lambda>ps. forEach ps strip_primitive)"
  by (simp add: strip_mesh_def on_truthy_def)

lemma strip_geometry_attributes_alt:
  "strip_geometry_attributes gltf = on_truthy gltf ''meshes'' (\<lambda>ms. forEach ms strip_mesh)"
  by (simp add: strip_geometry_attributes_def on_truthy_def)

lemma strip_textures_alt:
  "strip_textures gltf =
     bind (delete_props gltf [''images'', ''textures'', ''samplers''])
       (\<lambda>g3. on_truthy g3 ''materials'' (\<lambda>ms. forEach ms strip_material))"
  by (simp add: strip_textures_def on_truthy_def bind_assoc bind_Inr_right cong: if_cong option.case_cong)

subsection \<open>idempotence\<close>

lemma on_truthy_fixed_after:
  assumes a: "on_truthy a k g = Inr b"
    and g: "\<And>x x'. g x = Inr x' \<Longrightarrow> g x' = Inr x'"
    and s: "same_except K b c" and k: "k \<notin> K"
  shows "on_truthy c k g = Inr c"
proof (rule on_truthy_fixed)
  from on_truthy_Inr(1,2) [OF a] same_except_null [of "{k}" a b] same_except_null [OF s]
  show "c \<noteq> JNull" by simp
next
  fix x' assume "property c k = Some x'" and t: "truthy x'"
  with same_except_property [OF s k] have "property b k = Some x'" by simp
  with on_truthy_Inr(3) [OF a] obtain x
    where "if truthy x then g x = Inr x' else x' = x"
    by (auto simp: option_rel_Some2)
  with t have "g x = Inr x'" by (auto split: if_splits)
  then show "g x' = Inr x'" by (rule g)
qed

lemma delete_props_fixed_after:
  assumes a: "delete_props a ks = Inr b" and s: "same_except K b c"
    and d: "set ks \<inter> K = {}" and n: "ks \<noteq> []"
  shows "delete_props c ks = Inr c"
proof (rule delete_props_absent)
  note r = delete_props_Inr [OF a]
  from r n same_except_null [of "set ks" a b] same_except_null [OF s]
  show "c \<noteq> JNull" by simp
  show "\<forall>k\<in>set ks. property c k = None"
  proof
    fix k assume k: "k \<in> set ks"
    with d have "k \<notin> K" by blast
    from same_except_property [OF s this] r k show "property c k = None" by simp
  qed
qed

lemma strip_material_idem:
  assumes "strip_material m = Inr m'"
  shows "strip_material m' = Inr m'"
proof -
  let ?g = "\<lambda>p. delete_props p [''baseColorTexture'', ''metallicRoughnessTexture'']"
  let ?ks = "[''normalTexture'', ''occlusionTexture'', ''emissiveTexture'']"
  from assms obtain m1 where 1: "on_truthy m ''pbrMetallicRoughness'' ?g = Inr m1"
    and 2: "delete_props m1 ?ks = Inr m'"
    by (auto simp: strip_material_alt bind_Inr_iff)
  have s: "same_except (set ?ks) m1 m'"
    using delete_props_Inr [OF 2] by blast
  have "on_truthy m' ''pbrMetallicRoughness'' ?g = Inr m'"
    by (rule on_truthy_fixed_after [OF 1 delete_props_idem s]) simp_all
  moreover have "delete_props m' ?ks = Inr m'"
    by (rule delete_props_idem [OF 2])
  ultimately show ?thesis
    by (simp add: strip_material_alt del: delete_props.simps)
qed

lemma strip_primitive_idem: "strip_primitive q = Inr q' \<Longrightarrow> strip_primitive q' = Inr q'"
  unfolding strip_primitive_alt by (rule on_truthy_idem [OF _ delete_props_idem])

lemma strip_mesh_idem: "strip_mesh m = Inr m' \<Longrightarrow> strip_mesh m' = Inr m'"
  unfolding strip_mesh_alt
  by (rule on_truthy_idem [OF _ forEach_idem [OF _ strip_primitive_idem]])

lemma strip_geometry_attributes_idem:
  "strip_geometry_attributes t = Inr y \<Longrightarrow> strip_geometry_attributes y = Inr y"
  unfolding strip_geometry_attributes_alt
  by (rule on_truthy_idem [OF _ forEach_idem [OF _ strip_mesh_idem]])

lemma strip_idem_Inr:
  assumes "strip x = Inr y"
  shows "strip y = Inr y"
proof -
  let ?ks = "[''images'', ''textures'', ''samplers'']"
  let ?g = "\<lambda>ms. forEach ms strip_material"
  from assms obtain t where t: "strip_textures x = Inr t"
    and y: "strip_geometry_attributes t = Inr y"
    by (auto simp: strip_def bind_Inr_iff)
  from t obtain g3 where 1: "delete_props x ?ks = Inr g3"
    and 2: "on_truthy g3 ''materials'' ?g = Inr t"
    by (auto simp: strip_textures_alt bind_Inr_iff)
  have ty: "same_except {''meshes''} t y"
    using y unfolding strip_geometry_attributes_alt by (rule on_truthy_Inr(2))
  have gt: "same_except {''materials''} g3 t"
    using 2 by (rule on_truthy_Inr(2))
  have gy: "same_except ({''materials''} \<union> {''meshes''}) g3 y"
    by (rule same_except_trans [OF gt ty])
  have "delete_props y ?ks = Inr y"
    by (rule delete_props_fixed_after [OF 1 gy]) simp_all
  moreover have "on_truthy y ''materials'' ?g = Inr y"
    by (rule on_truthy_fixed_after [OF 2 forEach_idem [OF _ strip_material_idem] ty]) simp_all
  ultimately have "strip_textures y = Inr y"
    by (simp add: strip_textures_alt del: delete_props.simps)
  with strip_geometry_attributes_idem [OF y] show ?thesis
    by (simp add: strip_def)
qed

text \<open>
  Claim C5. Stripping is idempotent: stripping twice is stripping once, also where the
  first stripping ends in an error; and stripping the result of a stripping gives that
  result again.
\<close>

theorem strip_idempotent:
  "bind (strip x) strip = strip x \<and> (\<forall>y. strip x = Inr y \<longrightarrow> strip y = Inr y)"
proof (cases "strip x")
  case (Inl e)
  then show ?thesis by simp
next
  case (Inr y)
  from strip_idem_Inr [OF this] Inr show ?thesis by simp
qed

declare delete_props.simps [simp del]

subsection \<open>paths\<close>

lemma falsy_property: "\<not> truthy x \<Longrightarrow> property x k = None"
  by (cases x) simp_all

lemma falsy_at_path: "\<not> truthy x \<Longrightarrow> p \<noteq> [] \<Longrightarrow> at_path x p = None"
proof (cases p)
  case Nil
  then show "p \<noteq> [] \<Longrightarrow> at_path x p = None" by simp
next
  case (Cons s q)
  assume "\<not> truthy x"
  then show "at_path x p = None"
    unfolding Cons by (cases s; cases x) simp_all
qed

lemma at_path_deleted:
  assumes "delete_props a ks = Inr b" and "k \<in> set ks"
  shows "at_path b (Key k # p) = None"
  using delete_props_Inr [OF assms(1)] assms(2) by simp

lemma at_path_same_except:
  assumes "same_except K a b" and "k \<notin> K"
  shows "at_path b (Key k # p) = at_path a (Key k # p)"
  using same_except_property [OF assms] by simp

lemma at_path_on_truthy_None:
  assumes a: "on_truthy a k g = Inr b"
    and g: "\<And>x x'. g x = Inr x' \<Longrightarrow> at_path x' p = None" and p: "p \<noteq> []"
  shows "at_path b (Key k # p) = None"
proof (cases "property b k")
  case None
  then show ?thesis by simp
next
  case (Some x')
  with on_truthy_Inr(3) [OF a] obtain x
    where x: "if truthy x then g x = Inr x' else x' = x"
    by (auto simp: option_rel_Some2)
  have "at_path x' p = None"
  proof (cases "truthy x")
    case True
    with x show ?thesis by (simp add: g)
  next
    case False
    with x p show ?thesis by (simp add: falsy_at_path)
  qed
  with Some show ?thesis by simp
qed

lemma at_path_forEach_None:
  assumes a: "forEach v f = Inr v'"
    and f: "\<And>x x'. f x = Inr x' \<Longrightarrow> at_path x' p = None"
  shows "at_path v' (Idx i # p) = None"
proof -
  from a obtain xs ys where v: "v' = JArr ys" and l: "list_all2 (\<lambda>x y. f x = Inr y) xs ys"
    by (auto simp: forEach_Inr)
  show ?thesis
  proof (cases "i < length ys")
    case True
    with l have "f (xs ! i) = Inr (ys ! i)"
      by (simp add: list_all2_conv_all_nth)
    from f [OF this] True v show ?thesis by simp
  next
    case False
    with v show ?thesis by simp
  qed
qed

subsection \<open>what is gone after stripping\<close>

lemma strip_material_gone:
  assumes "strip_material m = Inr m'"
  shows "at_path m' [Key ''normalTexture''] = None"
    and "at_path m' [Key ''occlusionTexture''] = None"
    and "at_path m' [Key ''emissiveTexture''] = None"
    and "at_path m' [Key ''pbrMetallicRoughness'', Key ''baseColorTexture''] = None"
    and "at_path m' [Key ''pbrMetallicRoughness'', Key ''metallicRoughnessTexture''] = None"
proof -
  let ?g = "\<lambda>p. delete_props p [''baseColorTexture'', ''metallicRoughnessTexture'']"
  let ?ks = "[''normalTexture'', ''occlusionTexture'', ''emissiveTexture'']"
  from assms obtain m1 where 1: "on_truthy m ''pbrMetallicRoughness'' ?g = Inr m1"
    and 2: "delete_props m1 ?ks = Inr m'"
    by (auto simp: strip_material_alt bind_Inr_iff)
  show "at_path m' [Key ''normalTexture''] = None"
    by (rule at_path_deleted [OF 2]) simp
  show "at_path m' [Key ''occlusionTexture''] = None"
    by (rule at_path_deleted [OF 2]) simp
  show "at_path m' [Key ''emissiveTexture''] = None"
    by (rule at_path_deleted [OF 2]) simp
  have s: "same_except (set ?ks) m1 m'"
    using delete_props_Inr [OF 2] by blast
  have k: "''pbrMetallicRoughness'' \<notin> set ?ks" by simp
  have b: "at_path x' [Key ''baseColorTexture''] = None" if "?g x = Inr x'" for x x'
    using that by (rule at_path_deleted) simp
  have c: "at_path x' [Key ''metallicRoughnessTexture''] = None" if "?g x = Inr x'" for x x'
    using that by (rule at_path_deleted) simp
  have "at_path m1 [Key ''pbrMetallicRoughness'', Key ''baseColorTexture''] = None"
    by (rule at_path_on_truthy_None [OF 1]) (erule b, simp)
  then show "at_path m' [Key ''pbrMetallicRoughness'', Key ''baseColorTexture''] = None"
    by (simp only: at_path_same_except [OF s k])
  have "at_path m1 [Key ''pbrMetallicRoughness'', Key ''metallicRoughnessTexture''] = None"
    by (rule at_path_on_truthy_None [OF 1]) (erule c, simp)
  then show "at_path m' [Key ''pbrMetallicRoughness'', Key ''metallicRoughnessTexture''] = None"
    by (simp only: at_path_same_except [OF s k])
qed

lemma strip_primitive_gone:
  assumes "strip_primitive q = Inr q'"
    and "k \<in> {''NORMAL'', ''TEXCOORD_0'', ''TEXCOORD_1'', ''TANGENT'', ''COLOR_0''}"
  shows "at_path q' [Key ''attributes'', Key k] = None"
proof -
  let ?ks = "[''NORMAL'', ''TEXCOORD_0'', ''TEXCOORD_1'', ''TANGENT'', ''COLOR_0'']"
  from assms(1) have 1: "on_truthy q ''attributes'' (\<lambda>a. delete_props a ?ks) = Inr q'"
    by (simp only: strip_primitive_alt)
  have 2: "at_path x' [Key k] = None" if "delete_props x ?ks = Inr x'" for x x'
    using that by (rule at_path_deleted) (use assms(2) in simp)
  show ?thesis
    by (rule at_path_on_truthy_None [OF 1]) (erule 2, simp)
qed

lemma strip_mesh_gone:
  assumes "strip_mesh m = Inr m'"
    and "k \<in> {''NORMAL'', ''TEXCOORD_0'', ''TEXCOORD_1'', ''TANGENT'', ''COLOR_0''}"
  shows "at_path m' [Key ''primitives'', Idx j, Key ''attributes'', Key k] = None"
proof -
  from assms(1) have 1: "on_truthy m ''primitives'' (\<lambda>ps. forEach ps strip_primitive) = Inr m'"
    by (simp only: strip_mesh_alt)
  have 2: "at_path v' [Idx j, Key ''attributes'', Key k] = None"
    if "forEach v strip_primitive = Inr v'" for v v'
    using that by (rule at_path_forEach_None) (rule strip_primitive_gone [OF _ assms(2)])
  show ?thesis
    by (rule at_path_on_truthy_None [OF 1]) (erule 2, simp)
qed

lemma strip_geometry_attributes_gone:
  assumes "strip_geometry_attributes t = Inr y"
    and "k \<in> {''NORMAL'', ''TEXCOORD_0'', ''TEXCOORD_1'', ''TANGENT'', ''COLOR_0''}"
  shows "at_path y [Key ''meshes'', Idx i, Key ''primitives'', Idx j, Key ''attributes'', Key k] = None"
proof -
  from assms(1) have 1: "on_truthy t ''meshes'' (\<lambda>ms. forEach ms strip_mesh) = Inr y"
    by (simp only: strip_geometry_attributes_alt)
  have 2: "at_path v' [Idx i, Key ''primitives'', Idx j, Key ''attributes'', Key k] = None"
    if "forEach v strip_mesh = Inr v'" for v v'
    using that by (rule at_path_forEach_None) (rule strip_mesh_gone [OF _ assms(2)])
  show ?thesis
    by (rule at_path_on_truthy_None [OF 1]) (erule 2, simp)
qed

lemma strip_textures_gone:
  assumes "strip_textures x = Inr t"
  shows "at_path t [Key ''images''] = None"
    and "at_path t [Key ''textures''] = None"
    and "at_path t [Key ''samplers''] = None"
    and "at_path t [Key ''materials'', Idx i, Key ''normalTexture''] = None"
    and "at_path t [Key ''materials'', Idx i, Key ''occlusionTexture''] = None"
    and "at_path t [Key ''materials'', Idx i, Key ''emissiveTexture''] = None"
    and "at_path t [Key ''materials'', Idx i, Key ''pbrMetallicRoughness'', Key ''baseColorTexture''] = None"
    and "at_path t [Key ''materials'', Idx i, Key ''pbrMetallicRoughness'', Key ''metallicRoughnessTexture''] = None"
proof -
  let ?ks = "[''images'', ''textures'', ''samplers'']"
  let ?g = "\<lambda>ms. forEach ms strip_material"
  from assms obtain g3 where 1: "delete_props x ?ks = Inr g3"
    and 2: "on_truthy g3 ''materials'' ?g = Inr t"
    by (auto simp: strip_textures_alt bind_Inr_iff)
  have s: "same_except {''materials''} g3 t"
    using 2 by (rule on_truthy_Inr(2))
  have "at_path g3 [Key ''images''] = None"
    by (rule at_path_deleted [OF 1]) simp
  then show "at_path t [Key ''images''] = None"
    using at_path_same_except [OF s, of "''images''" "[]"] by simp
  have "at_path g3 [Key ''textures''] = None"
    by (rule at_path_deleted [OF 1]) simp
  then show "at_path t [Key ''textures''] = None"
    using at_path_same_except [OF s, of "''textures''" "[]"] by simp
  have "at_path g3 [Key ''samplers''] = None"
    by (rule at_path_deleted [OF 1]) simp
  then show "at_path t [Key ''samplers''] = None"
    using at_path_same_except [OF s, of "''samplers''" "[]"] by simp
  show "at_path t [Key ''materials'', Idx i, Key ''normalTexture''] = None"
    by (rule at_path_on_truthy_None [OF 2]) (erule at_path_forEach_None, erule strip_material_gone(1), simp)
  show "at_path t [Key ''materials'', Idx i, Key ''occlusionTexture''] = None"
    by (rule at_path_on_truthy_None [OF 2]) (erule at_path_forEach_None, erule strip_material_gone(2), simp)
  show "at_path t [Key ''materials'', Idx i, Key ''emissiveTexture''] = None"
    by (rule at_path_on_truthy_None [OF 2]) (erule at_path_forEach_None, erule strip_material_gone(3), simp)
  show "at_path t [Key ''materials'', Idx i, Key ''pbrMetallicRoughness'', Key ''baseColorTexture''] = None"
    by (rule at_path_on_truthy_None [OF 2]) (erule at_path_forEach_None, erule strip_material_gone(4), simp)
  show "at_path t [Key ''materials'', Idx i, Key ''pbrMetallicRoughness'', Key ''metallicRoughnessTexture''] = None"
    by (rule at_path_on_truthy_None [OF 2]) (erule at_path_forEach_None, erule strip_material_gone(5), simp)
qed

lemmas strip_eval =
  strip_def strip_textures_def strip_geometry_attributes_def strip_mesh_def strip_primitive_def
  strip_material_def

lemma strip_sample_scene: "strip sample_scene = Inr sample_stripped"
  by (simp add: strip_eval sample_scene_def sample_stripped_def)

lemma strip_normals_scene:
  "strip normals_scene =
     Inr (JObj [(''meshes'',
              JArr [JObj [(''primitives'',
                 JArr [JObj [(''attributes'', JObj [(''POSITION'', JNum 0)])]])]])])"
  by (simp add: strip_eval normals_scene_def)

text \<open>
  Claim C6. After stripping, the document has no \<^verbatim>\<open>images\<close>, \<^verbatim>\<open>textures\<close> or
  \<^verbatim>\<open>samplers\<close>, no material has a base-colour, metallic-roughness, normal, occlusion or
  emissive texture, and no primitive has a NORMAL, TEXCOORD_0, TEXCOORD_1, TANGENT or
  COLOR_0 attribute; a material with only \<^verbatim>\<open>pbrMetallicRoughness.baseColorTexture\<close>
  becomes a material with an empty \<^verbatim>\<open>pbrMetallicRoughness\<close> object.
\<close>

theorem strip_removes:
  assumes "strip x = Inr y"
  shows "at_path y [Key ''images''] = None
    \<and> at_path y [Key ''textures''] = None
    \<and> at_path y [Key ''samplers''] = None
    \<and> (\<forall>i. at_path y [Key ''materials'', Idx i, Key ''pbrMetallicRoughness'', Key ''baseColorTexture''] = None
          \<and> at_path y [Key ''materials'', Idx i, Key ''pbrMetallicRoughness'', Key ''metallicRoughnessTexture''] = None
          \<and> at_path y [Key ''materials'', Idx i, Key ''normalTexture''] = None
          \<and> at_path y [Key ''materials'', Idx i, Key ''occlusionTexture''] = None
          \<and> at_path y [Key ''materials'', Idx i, Key ''emissiveTexture''] = None)
    \<and> (\<forall>i j. at_path y [Key ''meshes'', Idx i, Key ''primitives'', Idx j, Key ''attributes'', Key ''NORMAL''] = None
          \<and> at_path y [Key ''meshes'', Idx i, Key ''primitives'', Idx j, Key ''attributes'', Key ''TEXCOORD_0''] = None
          \<and> at_path y [Key ''meshes'', Idx i, Key ''primitives'', Idx j, Key ''attributes'', Key ''TEXCOORD_1''] = None
          \<and> at_path y [Key ''meshes'', Idx i, Key ''primitives'', Idx j, Key ''attributes'', Key ''TANGENT''] = None
          \<and> at_path y [Key ''meshes'', Idx i, Key ''primitives'', Idx j, Key ''attributes'', Key ''COLOR_0''] = None)
    \<and> strip (JObj [(''materials'',
                 JArr [JObj [(''pbrMetallicRoughness'', JObj [(''baseColorTexture'', tex)])]])]) =
        Inr (JObj [(''materials'', JArr [JObj [(''pbrMetallicRoughness'', JObj [])]])])"
proof -
  from assms obtain t where t: "strip_textures x = Inr t"
    and y: "strip_geometry_attributes t = Inr y"
    by (auto simp: strip_def bind_Inr_iff)
  have ty: "same_except {''meshes''} t y"
    using y unfolding strip_geometry_attributes_alt by (rule on_truthy_Inr(2))
  have keep: "at_path y (Key k # p) = at_path t (Key k # p)" if "k \<noteq> ''meshes''" for k p
    by (rule at_path_same_except [OF ty]) (use that in simp)
  note g = strip_textures_gone [OF t]
  have top: "at_path y [Key ''images''] = None \<and> at_path y [Key ''textures''] = None
    \<and> at_path y [Key ''samplers''] = None"
    using g(1-3) by (simp only: keep list.simps char.inject simp_thms)
  have mat: "at_path y [Key ''materials'', Idx i, Key ''pbrMetallicRoughness'', Key ''baseColorTexture''] = None
          \<and> at_path y [Key ''materials'', Idx i, Key ''pbrMetallicRoughness'', Key ''metallicRoughnessTexture''] = None
          \<and> at_path y [Key ''materials'', Idx i, Key ''normalTexture''] = None
          \<and> at_path y [Key ''materials'', Idx i, Key ''occlusionTexture''] = None
          \<and> at_path y [Key ''materials'', Idx i, Key ''emissiveTexture''] = None" for i
    using g(4-8) [of i] by (simp only: keep list.simps char.inject simp_thms)
  have geo: "at_path y [Key ''meshes'', Idx i, Key ''primitives'', Idx j, Key ''attributes'', Key ''NORMAL''] = None
          \<and> at_path y [Key ''meshes'', Idx i, Key ''primitives'', Idx j, Key ''attributes'', Key ''TEXCOORD_0''] = None
          \<and> at_path y [Key ''meshes'', Idx i, Key ''primitives'', Idx j, Key ''attributes'', Key ''TEXCOORD_1''] = None
          \<and> at_path y [Key ''meshes'', Idx i, Key ''primitives'', Idx j, Key ''attributes'', Key ''TANGENT''] = None
          \<and> at_path y [Key ''meshes'', Idx i, Key ''primitives'', Idx j, Key ''attributes'', Key ''COLOR_0''] = None"
    for i j
    by (intro conjI strip_geometry_attributes_gone [OF y]) simp_all
  have ex: "strip (JObj [(''materials'',
                 JArr [JObj [(''pbrMetallicRoughness'', JObj [(''baseColorTexture'', tex)])]])]) =
        Inr (JObj [(''materials'', JArr [JObj [(''pbrMetallicRoughness'', JObj [])]])])"
    by (simp add: strip_eval)
  from top mat geo ex show ?thesis by blast
qed

subsection \<open>frame\<close>

lemma frame_items_falsy: "\<not> truthy x \<Longrightarrow> frame_items R x x"
  by (cases x) (simp_all add: frame_items_def)

lemma on_truthy_frame:
  assumes a: "on_truthy a k g = Inr b"
    and g: "\<And>x x'. g x = Inr x' \<Longrightarrow> R x x'" and r: "\<And>x. \<not> truthy x \<Longrightarrow> R x x"
  shows "rel_option R (property a k) (property b k)"
  using on_truthy_Inr(3) [OF a]
  by (rule option.rel_mono_strong) (auto split: if_splits intro: g r)

lemma forEach_frame:
  assumes "forEach v f = Inr v'" and f: "\<And>x x'. f x = Inr x' \<Longrightarrow> R x x'"
  shows "frame_items R v v'"
proof -
  from assms(1) obtain xs ys where v: "v = JArr xs" "v' = JArr ys"
    and l: "list_all2 (\<lambda>x y. f x = Inr y) xs ys"
    by (auto simp: forEach_Inr)
  from l have "list_all2 R xs ys"
    by (rule list_all2_mono) (rule f)
  with v show ?thesis by (simp add: frame_items_def)
qed

lemma delete_props_frame: "delete_props a ks = Inr b \<Longrightarrow> same_except (set ks) a b"
  using delete_props_Inr by blast

lemma strip_material_frame:
  assumes "strip_material m = Inr m'"
  shows "frame_material m m'"
proof -
  let ?g = "\<lambda>p. delete_props p [''baseColorTexture'', ''metallicRoughnessTexture'']"
  let ?ks = "[''normalTexture'', ''occlusionTexture'', ''emissiveTexture'']"
  from assms obtain m1 where 1: "on_truthy m ''pbrMetallicRoughness'' ?g = Inr m1"
    and 2: "delete_props m1 ?ks = Inr m'"
    by (auto simp: strip_material_alt bind_Inr_iff)
  have s1: "same_except {''pbrMetallicRoughness''} m m1"
    using 1 by (rule on_truthy_Inr(2))
  have s2: "same_except (set ?ks) m1 m'"
    using 2 by (rule delete_props_frame)
  have "same_except ({''pbrMetallicRoughness''} \<union> set ?ks) m m'"
    by (rule same_except_trans [OF s1 s2])
  then have a: "same_except {''pbrMetallicRoughness'', ''normalTexture'', ''occlusionTexture'', ''emissiveTexture''} m m'"
    by (rule same_except_mono) simp
  have "rel_option (same_except (set [''baseColorTexture'', ''metallicRoughnessTexture'']))
          (property m ''pbrMetallicRoughness'') (property m1 ''pbrMetallicRoughness'')"
    by (rule on_truthy_frame [OF 1]) (erule delete_props_frame, rule same_except_refl)
  moreover have "property m' ''pbrMetallicRoughness'' = property m1 ''pbrMetallicRoughness''"
    by (rule same_except_property [OF s2]) simp
  ultimately have b: "rel_option (same_except {''baseColorTexture'', ''metallicRoughnessTexture''})
          (property m ''pbrMetallicRoughness'') (property m' ''pbrMetallicRoughness'')"
    by simp
  from a b show ?thesis by (simp add: frame_material_def)
qed

lemma strip_primitive_frame:
  assumes "strip_primitive q = Inr q'"
  shows "frame_primitive q q'"
proof -
  let ?ks = "[''NORMAL'', ''TEXCOORD_0'', ''TEXCOORD_1'', ''TANGENT'', ''COLOR_0'']"
  from assms have 1: "on_truthy q ''attributes'' (\<lambda>a. delete_props a ?ks) = Inr q'"
    by (simp only: strip_primitive_alt)
  have "rel_option (same_except (set ?ks)) (property q ''attributes'') (property q' ''attributes'')"
    by (rule on_truthy_frame [OF 1]) (erule delete_props_frame, rule same_except_refl)
  with on_truthy_Inr(2) [OF 1] show ?thesis
    by (simp add: frame_primitive_def)
qed

lemma strip_mesh_frame:
  assumes "strip_mesh m = Inr m'"
  shows "frame_mesh m m'"
proof -
  from assms have 1: "on_truthy m ''primitives'' (\<lambda>ps. forEach ps strip_primitive) = Inr m'"
    by (simp only: strip_mesh_alt)
  have "rel_option (frame_items frame_primitive) (property m ''primitives'') (property m' ''primitives'')"
    by (rule on_truthy_frame [OF 1]) (erule forEach_frame, erule strip_primitive_frame, erule frame_items_falsy)
  with on_truthy_Inr(2) [OF 1] show ?thesis
    by (simp add: frame_mesh_def)
qed

lemma strip_frame_scene:
  assumes "strip x = Inr y"
  shows "frame_scene x y"
proof -
  let ?ks = "[''images'', ''textures'', ''samplers'']"
  from assms obtain t where t: "strip_textures x = Inr t"
    and y: "strip_geometry_attributes t = Inr y"
    by (auto simp: strip_def bind_Inr_iff)
  from t obtain g3 where 1: "delete_props x ?ks = Inr g3"
    and 2: "on_truthy g3 ''materials'' (\<lambda>ms. forEach ms strip_material) = Inr t"
    by (auto simp: strip_textures_alt bind_Inr_iff)
  from y have 3: "on_truthy t ''meshes'' (\<lambda>ms. forEach ms strip_mesh) = Inr y"
    by (simp only: strip_geometry_attributes_alt)
  have s1: "same_except (set ?ks) x g3" using 1 by (rule delete_props_frame)
  have s2: "same_except {''materials''} g3 t" using 2 by (rule on_truthy_Inr(2))
  have s3: "same_except {''meshes''} t y" using 3 by (rule on_truthy_Inr(2))
  have "same_except ((set ?ks \<union> {''materials''}) \<union> {''meshes''}) x y"
    by (rule same_except_trans [OF same_except_trans [OF s1 s2] s3])
  then have a: "same_except {''images'', ''textures'', ''samplers'', ''materials'', ''meshes''} x y"
    by (rule same_except_mono) simp
  have "rel_option (frame_items frame_material) (property g3 ''materials'') (property t ''materials'')"
    by (rule on_truthy_frame [OF 2]) (erule forEach_frame, erule strip_material_frame, erule frame_items_falsy)
  moreover have "property g3 ''materials'' = property x ''materials''"
    by (rule same_except_property [OF s1]) simp
  moreover have "property y ''materials'' = property t ''materials''"
    by (rule same_except_property [OF s3]) simp
  ultimately have b: "rel_option (frame_items frame_material) (property x ''materials'') (property y ''materials'')"
    by simp
  have "rel_option (frame_items frame_mesh) (property t ''meshes'') (property y ''meshes'')"
    by (rule on_truthy_frame [OF 3]) (erule forEach_frame, erule strip_mesh_frame, erule frame_items_falsy)
  moreover have "property g3 ''meshes'' = property x ''meshes''"
    by (rule same_except_property [OF s1]) simp
  moreover have "property t ''meshes'' = property g3 ''meshes''"
    by (rule same_except_property [OF s2]) simp
  ultimately have c: "rel_option (frame_items frame_mesh) (property x ''meshes'') (property y ''meshes'')"
    by simp
  from a b c show ?thesis by (simp add: frame_scene_def)
qed

lemma at_path_rel_option:
  assumes "rel_option R (property a k) (property b k)"
    and "\<And>x x'. R x x' \<Longrightarrow> at_path x' p = at_path x p"
  shows "at_path b (Key k # p) = at_path a (Key k # p)"
  using assms by (cases "property a k"; cases "property b k") simp_all

lemma at_path_frame_items:
  assumes "frame_items R v v'"
    and r: "\<And>x x'. R x x' \<Longrightarrow> at_path x' p = at_path x p"
  shows "at_path v' (Idx i # p) = at_path v (Idx i # p)"
proof (cases v)
  case (JArr xs)
  with assms(1) obtain ys where v': "v' = JArr ys" and l: "list_all2 R xs ys"
    by (auto simp: frame_items_def)
  from l have len: "length ys = length xs" by (simp add: list_all2_lengthD)
  show ?thesis
  proof (cases "i < length xs")
    case True
    with l have "R (xs ! i) (ys ! i)" by (simp add: list_all2_conv_all_nth)
    from r [OF this] True len JArr v' show ?thesis by simp
  next
    case False
    with len JArr v' show ?thesis by simp
  qed
qed (use assms(1) in \<open>simp_all add: frame_items_def\<close>)

lemma frame_primitive_at_path:
  assumes "frame_primitive q q'"
  shows "k \<notin> {''NORMAL'', ''TEXCOORD_0'', ''TEXCOORD_1'', ''TANGENT'', ''COLOR_0''} \<Longrightarrow>
           at_path q' [Key ''attributes'', Key k] = at_path q [Key ''attributes'', Key k]"
    and "k \<noteq> ''attributes'' \<Longrightarrow> at_path q' [Key k] = at_path q [Key k]"
proof -
  from assms have a: "same_except {''attributes''} q q'"
    and b: "rel_option (same_except {''NORMAL'', ''TEXCOORD_0'', ''TEXCOORD_1'', ''TANGENT'', ''COLOR_0''})
          (property q ''attributes'') (property q' ''attributes'')"
    by (simp_all add: frame_primitive_def)
  show "at_path q' [Key ''attributes'', Key k] = at_path q [Key ''attributes'', Key k]"
    if "k \<notin> {''NORMAL'', ''TEXCOORD_0'', ''TEXCOORD_1'', ''TANGENT'', ''COLOR_0''}"
    by (rule at_path_rel_option [OF b]) (erule at_path_same_except, rule that)
  show "at_path q' [Key k] = at_path q [Key k]" if "k \<noteq> ''attributes''"
    by (rule at_path_same_except [OF a]) (use that in simp)
qed

lemma frame_mesh_at_path:
  assumes "frame_mesh m m'"
  shows "k \<notin> {''NORMAL'', ''TEXCOORD_0'', ''TEXCOORD_1'', ''TANGENT'', ''COLOR_0''} \<Longrightarrow>
           at_path m' [Key ''primitives'', Idx j, Key ''attributes'', Key k] =
           at_path m [Key ''primitives'', Idx j, Key ''attributes'', Key k]"
    and "k \<noteq> ''attributes'' \<Longrightarrow>
           at_path m' [Key ''primitives'', Idx j, Key k] = at_path m [Key ''primitives'', Idx j, Key k]"
proof -
  from assms have b: "rel_option (frame_items frame_primitive)
          (property m ''primitives'') (property m' ''primitives'')"
    by (simp add: frame_mesh_def)
  show "at_path m' [Key ''primitives'', Idx j, Key ''attributes'', Key k] =
           at_path m [Key ''primitives'', Idx j, Key ''attributes'', Key k]"
    if "k \<notin> {''NORMAL'', ''TEXCOORD_0'', ''TEXCOORD_1'', ''TANGENT'', ''COLOR_0''}"
    by (rule at_path_rel_option [OF b]) (erule at_path_frame_items, erule frame_primitive_at_path(1), rule that)
  show "at_path m' [Key ''primitives'', Idx j, Key k] = at_path m [Key ''primitives'', Idx j, Key k]"
    if "k \<noteq> ''attributes''"
    by (rule at_path_rel_option [OF b]) (erule at_path_frame_items, erule frame_primitive_at_path(2), rule that)
qed

text \<open>
  Claim C7. Stripping never removes a POSITION attribute, the indices or the mode of a
  primitive, or the accessors, buffer views and buffers of the document, and it changes
  nothing but the removed fields: the document, every material
  and its \<^verbatim>\<open>pbrMetallicRoughness\<close>, every mesh, every primitive and its attributes keep
  all other properties, and the arrays keep their length. The removed fields are the
  top-level \<^verbatim>\<open>images\<close>, \<^verbatim>\<open>textures\<close> and \<^verbatim>\<open>samplers\<close>, the five texture references
  of a material and the five attributes of a primitive.
\<close>

theorem strip_frame:
  assumes "strip x = Inr y"
  shows "frame_scene x y
    \<and> (\<forall>i j. at_path y [Key ''meshes'', Idx i, Key ''primitives'', Idx j, Key ''attributes'', Key ''POSITION''] =
             at_path x [Key ''meshes'', Idx i, Key ''primitives'', Idx j, Key ''attributes'', Key ''POSITION'']
          \<and> at_path y [Key ''meshes'', Idx i, Key ''primitives'', Idx j, Key ''indices''] =
             at_path x [Key ''meshes'', Idx i, Key ''primitives'', Idx j, Key ''indices'']
          \<and> at_path y [Key ''meshes'', Idx i, Key ''primitives'', Idx j, Key ''mode''] =
             at_path x [Key ''meshes'', Idx i, Key ''primitives'', Idx j, Key ''mode''])
    \<and> at_path y [Key ''accessors''] = at_path x [Key ''accessors'']
    \<and> at_path y [Key ''bufferViews''] = at_path x [Key ''bufferViews'']
    \<and> at_path y [Key ''buffers''] = at_path x [Key ''buffers'']"
proof -
  have f: "frame_scene x y" using assms by (rule strip_frame_scene)
  then have a: "same_except {''images'', ''textures'', ''samplers'', ''materials'', ''meshes''} x y"
    by (simp add: frame_scene_def)
  have t1: "at_path y [Key ''accessors''] = at_path x [Key ''accessors'']"
    by (rule at_path_same_except [OF a]) simp
  have t2: "at_path y [Key ''bufferViews''] = at_path x [Key ''bufferViews'']"
    by (rule at_path_same_except [OF a]) simp
  have t3: "at_path y [Key ''buffers''] = at_path x [Key ''buffers'']"
    by (rule at_path_same_except [OF a]) simp
  from f have b: "rel_option (frame_items frame_mesh) (property x ''meshes'') (property y ''meshes'')"
    by (simp add: frame_scene_def)
  have p: "at_path y [Key ''meshes'', Idx i, Key ''primitives'', Idx j, Key ''attributes'', Key ''POSITION''] =
             at_path x [Key ''meshes'', Idx i, Key ''primitives'', Idx j, Key ''attributes'', Key ''POSITION'']"
    for i j
    by (rule at_path_rel_option [OF b]) (erule at_path_frame_items, erule frame_mesh_at_path(1), simp)
  have q: "at_path y [Key ''meshes'', Idx i, Key ''primitives'', Idx j, Key k] =
             at_path x [Key ''meshes'', Idx i, Key ''primitives'', Idx j, Key k]"
    if "k \<noteq> ''attributes''" for i j k
    by (rule at_path_rel_option [OF b]) (erule at_path_frame_items, erule frame_mesh_at_path(2), rule that)
  have "at_path y [Key ''meshes'', Idx i, Key ''primitives'', Idx j, Key ''indices''] =
             at_path x [Key ''meshes'', Idx i, Key ''primitives'', Idx j, Key ''indices'']" for i j
    by (rule q) simp
  moreover have "at_path y [Key ''meshes'', Idx i, Key ''primitives'', Idx j, Key ''mode''] =
             at_path x [Key ''meshes'', Idx i, Key ''primitives'', Idx j, Key ''mode'']" for i j
    by (rule q) simp
  ultimately show ?thesis using f p t1 t2 t3 by blast
qed

lemma is_obj_not_null: "is_obj j \<Longrightarrow> j \<noteq> JNull"
  by (cases j) simp_all

lemma items_ok_Some:
  assumes "items_ok P (Some v)"
  obtains xs where "v = JArr xs" and "list_all P xs"
  using assms by (cases v) (simp_all add: items_ok_def)

lemma forEach_total:
  assumes "list_all P xs" and "\<And>x. P x \<Longrightarrow> \<exists>y. f x = Inr y"
  shows "\<exists>v'. forEach (JArr xs) f = Inr v'"
proof -
  from assms(1) have "\<exists>ys. forEach_elems f xs = Inr ys"
  proof (induction xs)
    case Nil
    then show ?case by simp
  next
    case (Cons x xs)
    from Cons.prems have px: "P x" and pxs: "list_all P xs" by simp_all
    from assms(2) [OF px] obtain y where y: "f x = Inr y" ..
    from Cons.IH [OF pxs] obtain ys where ys: "forEach_elems f xs = Inr ys" ..
    from y ys show ?case by simp
  qed
  then show ?thesis by auto
qed

lemma forEach_unchanged:
  assumes "\<And>i. i < length xs \<Longrightarrow> f (xs ! i) = Inr (xs ! i)"
  shows "forEach (JArr xs) f = Inr (JArr xs)"
proof -
  from assms have "list_all2 (\<lambda>x y. f x = Inr y) xs xs"
    by (simp add: list_all2_conv_all_nth)
  then have "forEach_elems f xs = Inr xs"
    by (simp add: forEach_elems_Inr)
  then show ?thesis by simp
qed

subsection \<open>no error on a scene\<close>

lemma strip_material_total:
  assumes "m \<noteq> JNull"
  shows "\<exists>m'. strip_material m = Inr m'"
proof -
  let ?g = "\<lambda>p. delete_props p [''baseColorTexture'', ''metallicRoughnessTexture'']"
  have "\<exists>m1. on_truthy m ''pbrMetallicRoughness'' ?g = Inr m1"
    by (rule on_truthy_total [OF assms]) (rule delete_props_total, erule truthy_not_null)
  then obtain m1 where 1: "on_truthy m ''pbrMetallicRoughness'' ?g = Inr m1" ..
  from on_truthy_Inr(2) [OF 1] assms have "m1 \<noteq> JNull"
    by (simp add: same_except_null)
  from delete_props_total [OF this] 1 show ?thesis
    by (simp add: strip_material_alt)
qed

lemma strip_primitive_total: "q \<noteq> JNull \<Longrightarrow> \<exists>q'. strip_primitive q = Inr q'"
  unfolding strip_primitive_alt
  by (rule on_truthy_total) (assumption, rule delete_props_total, erule truthy_not_null)

lemma strip_mesh_total:
  assumes "is_mesh m"
  shows "\<exists>m'. strip_mesh m = Inr m'"
  unfolding strip_mesh_alt
proof (rule on_truthy_total)
  from assms show "m \<noteq> JNull" by (simp add: is_mesh_def is_obj_not_null)
next
  fix ps assume "property m ''primitives'' = Some ps"
  with assms have "items_ok is_obj (Some ps)" by (simp add: is_mesh_def)
  then obtain qs where ps: "ps = JArr qs" and l: "list_all is_obj qs"
    by (rule items_ok_Some)
  from l show "\<exists>x'. forEach ps strip_primitive = Inr x'"
    unfolding ps by (rule forEach_total) (rule strip_primitive_total, erule is_obj_not_null)
qed

lemma strip_total:
  assumes "is_scene x"
  shows "\<exists>y. strip x = Inr y"
proof -
  let ?ks = "[''images'', ''textures'', ''samplers'']"
  from assms have n: "x \<noteq> JNull" by (simp add: is_scene_def is_obj_not_null)
  from delete_props_total [OF n] obtain g3 where 1: "delete_props x ?ks = Inr g3" ..
  have s1: "same_except (set ?ks) x g3" using 1 by (rule delete_props_frame)
  from s1 n have n3: "g3 \<noteq> JNull" by (simp add: same_except_null)
  have m3: "property g3 ''materials'' = property x ''materials''"
    by (rule same_except_property [OF s1]) simp
  have "\<exists>t. on_truthy g3 ''materials'' (\<lambda>ms. forEach ms strip_material) = Inr t"
  proof (rule on_truthy_total [OF n3])
    fix ms assume "property g3 ''materials'' = Some ms"
    with assms m3 have "items_ok is_obj (Some ms)" by (simp add: is_scene_def)
    then obtain xs where ms: "ms = JArr xs" and l: "list_all is_obj xs"
      by (rule items_ok_Some)
    from l show "\<exists>x'. forEach ms strip_material = Inr x'"
      unfolding ms by (rule forEach_total) (rule strip_material_total, erule is_obj_not_null)
  qed
  then obtain t where 2: "on_truthy g3 ''materials'' (\<lambda>ms. forEach ms strip_material) = Inr t" ..
  have s2: "same_except {''materials''} g3 t" using 2 by (rule on_truthy_Inr(2))
  from s2 n3 have nt: "t \<noteq> JNull" by (simp add: same_except_null)
  have "property t ''meshes'' = property g3 ''meshes''"
    by (rule same_except_property [OF s2]) simp
  moreover have "property g3 ''meshes'' = property x ''meshes''"
    by (rule same_except_property [OF s1]) simp
  ultimately have mt: "property t ''meshes'' = property x ''meshes''" by simp
  have "\<exists>y. on_truthy t ''meshes'' (\<lambda>ms. forEach ms strip_mesh) = Inr y"
  proof (rule on_truthy_total [OF nt])
    fix ms assume "property t ''meshes'' = Some ms"
    with assms mt have "items_ok is_mesh (Some ms)" by (simp add: is_scene_def)
    then obtain xs where ms: "ms = JArr xs" and l: "list_all is_mesh xs"
      by (rule items_ok_Some)
    from l show "\<exists>x'. forEach ms strip_mesh = Inr x'"
      unfolding ms by (rule forEach_total) (rule strip_mesh_total)
  qed
  then obtain y where 3: "on_truthy t ''meshes'' (\<lambda>ms. forEach ms strip_mesh) = Inr y" ..
  from 1 2 3 have "strip x = Inr y"
    by (simp add: strip_def strip_textures_alt strip_geometry_attributes_alt)
  then show ?thesis ..
qed

subsection \<open>nothing to strip\<close>

lemma at_path_Key_None: "at_path a [Key k] = None \<longleftrightarrow> property a k = None"
  by (simp split: option.splits)

lemma strip_primitive_unchanged:
  assumes n: "q \<noteq> JNull"
    and a: "\<And>k. k \<in> {''NORMAL'', ''TEXCOORD_0'', ''TEXCOORD_1'', ''TANGENT'', ''COLOR_0''} \<Longrightarrow>
              at_path q [Key ''attributes'', Key k] = None"
  shows "strip_primitive q = Inr q"
  unfolding strip_primitive_alt
proof (rule on_truthy_fixed [OF n])
  let ?ks = "[''NORMAL'', ''TEXCOORD_0'', ''TEXCOORD_1'', ''TANGENT'', ''COLOR_0'']"
  fix x assume p: "property q ''attributes'' = Some x" and t: "truthy x"
  show "delete_props x ?ks = Inr x"
  proof (rule delete_props_absent [OF truthy_not_null [OF t]], rule ballI)
    fix k assume "k \<in> set ?ks"
    then have "at_path q [Key ''attributes'', Key k] = None"
      by (intro a) simp
    with p show "property x k = None"
      by (simp split: option.splits)
  qed
qed

lemma strip_mesh_unchanged:
  assumes m: "is_mesh m"
    and a: "\<And>j k. k \<in> {''NORMAL'', ''TEXCOORD_0'', ''TEXCOORD_1'', ''TANGENT'', ''COLOR_0''} \<Longrightarrow>
              at_path m [Key ''primitives'', Idx j, Key ''attributes'', Key k] = None"
  shows "strip_mesh m = Inr m"
  unfolding strip_mesh_alt
proof (rule on_truthy_fixed)
  from m show "m \<noteq> JNull" by (simp add: is_mesh_def is_obj_not_null)
next
  fix ps assume p: "property m ''primitives'' = Some ps"
  with m have "items_ok is_obj (Some ps)" by (simp add: is_mesh_def)
  then obtain qs where ps: "ps = JArr qs" and l: "list_all is_obj qs"
    by (rule items_ok_Some)
  show "forEach ps strip_primitive = Inr ps"
    unfolding ps
  proof (rule forEach_unchanged)
    fix j assume j: "j < length qs"
    with l have "is_obj (qs ! j)" by (simp add: list_all_length)
    then have n: "qs ! j \<noteq> JNull" by (rule is_obj_not_null)
    show "strip_primitive (qs ! j) = Inr (qs ! j)"
    proof (rule strip_primitive_unchanged [OF n])
      fix k assume "k \<in> {''NORMAL'', ''TEXCOORD_0'', ''TEXCOORD_1'', ''TANGENT'', ''COLOR_0''}"
      from a [OF this, of j] p ps j
      show "at_path (qs ! j) [Key ''attributes'', Key k] = None" by simp
    qed
  qed
qed

lemma strip_geometry_attributes_unchanged:
  assumes n: "x \<noteq> JNull" and m: "items_ok is_mesh (property x ''meshes'')"
    and a: "\<And>i j k. k \<in> {''NORMAL'', ''TEXCOORD_0'', ''TEXCOORD_1'', ''TANGENT'', ''COLOR_0''} \<Longrightarrow>
              at_path x [Key ''meshes'', Idx i, Key ''primitives'', Idx j, Key ''attributes'', Key k] = None"
  shows "strip_geometry_attributes x = Inr x"
  unfolding strip_geometry_attributes_alt
proof (rule on_truthy_fixed [OF n])
  fix ms assume p: "property x ''meshes'' = Some ms"
  with m have "items_ok is_mesh (Some ms)" by simp
  then obtain xs where ms: "ms = JArr xs" and l: "list_all is_mesh xs"
    by (rule items_ok_Some)
  show "forEach ms strip_mesh = Inr ms"
    unfolding ms
  proof (rule forEach_unchanged)
    fix i assume i: "i < length xs"
    with l have mi: "is_mesh (xs ! i)" by (simp add: list_all_length)
    show "strip_mesh (xs ! i) = Inr (xs ! i)"
    proof (rule strip_mesh_unchanged [OF mi])
      fix j k assume "k \<in> {''NORMAL'', ''TEXCOORD_0'', ''TEXCOORD_1'', ''TANGENT'', ''COLOR_0''}"
      from a [OF this, of i j] p ms i
      show "at_path (xs ! i) [Key ''primitives'', Idx j, Key ''attributes'', Key k] = None" by simp
    qed
  qed
qed

lemma strip_textures_unchanged:
  assumes n: "x \<noteq> JNull"
    and "property x ''images'' = None" and "property x ''textures'' = None"
    and "property x ''samplers'' = None" and "property x ''materials'' = None"
  shows "strip_textures x = Inr x"
proof -
  have "delete_props x [''images'', ''textures'', ''samplers''] = Inr x"
    by (rule delete_props_absent [OF n]) (use assms in simp)
  moreover have "on_truthy x ''materials'' (\<lambda>ms. forEach ms strip_material) = Inr x"
    by (rule on_truthy_fixed [OF n]) (use assms in simp)
  ultimately show ?thesis by (simp add: strip_textures_alt)
qed

text \<open>
  Claim C8, as the code has it. Stripping a scene description never fails; an absent
  materials list, absent meshes, absent primitives, an absent attributes map and an absent
  \<^verbatim>\<open>pbrMetallicRoughness\<close> are skipped; and a scene without materials, images, textures
  and samplers, none of whose primitives has a NORMAL, TEXCOORD_0, TEXCOORD_1, TANGENT or
  COLOR_0 attribute, is returned unchanged.
\<close>

theorem strip_no_error:
  assumes "is_scene x"
  shows "(\<exists>y. strip x = Inr y)
    \<and> (property x ''materials'' = None \<longrightarrow>
         strip_textures x = delete_props x [''images'', ''textures'', ''samplers''])
    \<and> (property x ''meshes'' = None \<longrightarrow> strip_geometry_attributes x = Inr x)
    \<and> (\<forall>m. is_obj m \<and> property m ''primitives'' = None \<longrightarrow> strip_mesh m = Inr m)
    \<and> (\<forall>q. is_obj q \<and> property q ''attributes'' = None \<longrightarrow> strip_primitive q = Inr q)
    \<and> (\<forall>m. is_obj m \<and> property m ''pbrMetallicRoughness'' = None \<longrightarrow>
          strip_material m =
            delete_props m [''normalTexture'', ''occlusionTexture'', ''emissiveTexture''])
    \<and> (property x ''images'' = None \<and> property x ''textures'' = None
        \<and> property x ''samplers'' = None \<and> property x ''materials'' = None
        \<and> (\<forall>i j. \<forall>k \<in> {''NORMAL'', ''TEXCOORD_0'', ''TEXCOORD_1'', ''TANGENT'', ''COLOR_0''}.
              at_path x [Key ''meshes'', Idx i, Key ''primitives'', Idx j, Key ''attributes'', Key k] = None)
        \<longrightarrow> strip x = Inr x)"
proof -
  from assms have n: "x \<noteq> JNull" by (simp add: is_scene_def is_obj_not_null)
  have a: "\<exists>y. strip x = Inr y" using assms by (rule strip_total)
  have b: "strip_textures x = delete_props x [''images'', ''textures'', ''samplers'']"
    if "property x ''materials'' = None"
  proof (cases "delete_props x [''images'', ''textures'', ''samplers'']")
    case (Inl e)
    then show ?thesis by (simp add: strip_textures_alt)
  next
    case (Inr g3)
    have s: "same_except (set [''images'', ''textures'', ''samplers'']) x g3"
      using Inr by (rule delete_props_frame)
    from s n have n3: "g3 \<noteq> JNull" by (simp add: same_except_null)
    have "property g3 ''materials'' = property x ''materials''"
      by (rule same_except_property [OF s]) simp
    with that have "on_truthy g3 ''materials'' (\<lambda>ms. forEach ms strip_material) = Inr g3"
      by (intro on_truthy_fixed [OF n3]) simp
    with Inr show ?thesis by (simp add: strip_textures_alt)
  qed
  have c: "strip_geometry_attributes x = Inr x" if "property x ''meshes'' = None"
    unfolding strip_geometry_attributes_alt
    by (rule on_truthy_fixed [OF n]) (use that in simp)
  have d: "strip_mesh m = Inr m" if "is_obj m" "property m ''primitives'' = None" for m
    unfolding strip_mesh_alt
    by (rule on_truthy_fixed [OF is_obj_not_null [OF that(1)]]) (use that(2) in simp)
  have e: "strip_primitive q = Inr q" if "is_obj q" "property q ''attributes'' = None" for q
    unfolding strip_primitive_alt
    by (rule on_truthy_fixed [OF is_obj_not_null [OF that(1)]]) (use that(2) in simp)
  have f: "strip_material m =
            delete_props m [''normalTexture'', ''occlusionTexture'', ''emissiveTexture'']"
    if "is_obj m" "property m ''pbrMetallicRoughness'' = None" for m
  proof -
    have "on_truthy m ''pbrMetallicRoughness''
            (\<lambda>p. delete_props p [''baseColorTexture'', ''metallicRoughnessTexture'']) = Inr m"
      by (rule on_truthy_fixed [OF is_obj_not_null [OF that(1)]]) (use that(2) in simp)
    then show ?thesis by (simp add: strip_material_alt)
  qed
  have g: "strip x = Inr x"
    if "property x ''images'' = None" "property x ''textures'' = None"
       "property x ''samplers'' = None" "property x ''materials'' = None"
       "\<forall>i j. \<forall>k \<in> {''NORMAL'', ''TEXCOORD_0'', ''TEXCOORD_1'', ''TANGENT'', ''COLOR_0''}.
              at_path x [Key ''meshes'', Idx i, Key ''primitives'', Idx j, Key ''attributes'', Key k] = None"
  proof -
    have "strip_textures x = Inr x"
      using n that(1-4) by (rule strip_textures_unchanged)
    moreover have "strip_geometry_attributes x = Inr x"
    proof (rule strip_geometry_attributes_unchanged [OF n])
      from assms show "items_ok is_mesh (property x ''meshes'')" by (simp add: is_scene_def)
    next
      fix i j k assume k: "k \<in> {''NORMAL'', ''TEXCOORD_0'', ''TEXCOORD_1'', ''TANGENT'', ''COLOR_0''}"
      show "at_path x [Key ''meshes'', Idx i, Key ''primitives'', Idx j, Key ''attributes'', Key k] = None"
        by (rule bspec [OF spec [OF spec [OF that(5)]] k])
    qed
    ultimately show ?thesis by (simp add: strip_def)
  qed
  from a b c d e f g show ?thesis by blast
qed

theorem strip_idempotent_witness:
  "strip sample_scene = Inr sample_stripped \<and> strip sample_stripped = Inr sample_stripped
   \<and> bind (strip sample_scene) strip = strip sample_scene"
  using strip_idempotent [of sample_scene] strip_sample_scene by simp

theorem strip_removes_witness:
  "strip sample_scene = Inr sample_stripped
   \<and> at_path sample_stripped [Key ''images''] = None
   \<and> at_path sample_stripped [Key ''materials'', Idx 0, Key ''normalTexture''] = None
   \<and> at_path sample_stripped
        [Key ''materials'', Idx 0, Key ''pbrMetallicRoughness'', Key ''baseColorTexture''] = None
   \<and> at_path sample_stripped
        [Key ''meshes'', Idx 0, Key ''primitives'', Idx 0, Key ''attributes'', Key ''NORMAL''] = None"
  using strip_removes [OF strip_sample_scene] strip_sample_scene by blast

theorem strip_frame_witness:
  "strip sample_scene = Inr sample_stripped
   \<and> frame_scene sample_scene sample_stripped
   \<and> at_path sample_stripped
        [Key ''meshes'', Idx 0, Key ''primitives'', Idx 0, Key ''attributes'', Key ''POSITION''] =
       Some (JNum 0)
   \<and> at_path sample_stripped [Key ''meshes'', Idx 0, Key ''primitives'', Idx 0, Key ''indices''] =
       Some (JNum 2)"
proof -
  have p: "at_path sample_scene
        [Key ''meshes'', Idx 0, Key ''primitives'', Idx 0, Key ''attributes'', Key ''POSITION''] =
       Some (JNum 0)"
    and i: "at_path sample_scene [Key ''meshes'', Idx 0, Key ''primitives'', Idx 0, Key ''indices''] =
       Some (JNum 2)"
    by (simp_all add: sample_scene_def)
  from strip_frame [OF strip_sample_scene] p i strip_sample_scene show ?thesis by metis
qed

text \<open>
  Claim C8 says that a scene with no materials and no textures is returned unchanged.
  A scene without materials and textures whose primitive has normals loses the normals.
\<close>

theorem strip_unchanged_counterexample:
  "is_scene normals_scene
   \<and> property normals_scene ''materials'' = None
   \<and> property normals_scene ''images'' = None
   \<and> property normals_scene ''textures'' = None
   \<and> property normals_scene ''samplers'' = None
   \<and> strip normals_scene \<noteq> Inr normals_scene"
  by (simp add: strip_normals_scene) (simp add: normals_scene_def is_scene_def is_mesh_def items_ok_def)

lemma bare_scene_clean:
  "\<forall>i j. \<forall>k \<in> {''NORMAL'', ''TEXCOORD_0'', ''TEXCOORD_1'', ''TANGENT'', ''COLOR_0''}.
     at_path bare_scene [Key ''meshes'', Idx i, Key ''primitives'', Idx j, Key ''attributes'', Key k] = None"
  by (simp add: bare_scene_def)

theorem strip_no_error_witness:
  "is_scene bare_scene
   \<and> (\<exists>y. strip bare_scene = Inr y)
   \<and> property bare_scene ''images'' = None \<and> property bare_scene ''textures'' = None
   \<and> property bare_scene ''samplers'' = None \<and> property bare_scene ''materials'' = None
   \<and> strip bare_scene = Inr bare_scene
   \<and> is_obj (JObj [(''name'', JStr ''m'')])
   \<and> property (JObj [(''name'', JStr ''m'')]) ''primitives'' = None
   \<and> strip_mesh (JObj [(''name'', JStr ''m'')]) = Inr (JObj [(''name'', JStr ''m'')])"
proof -
  have s: "is_scene bare_scene"
    by (simp add: bare_scene_def is_scene_def is_mesh_def items_ok_def)
  have h: "property bare_scene ''images'' = None \<and> property bare_scene ''textures'' = None
        \<and> property bare_scene ''samplers'' = None \<and> property bare_scene ''materials'' = None"
    by (simp add: bare_scene_def)
  have m: "is_obj (JObj [(''name'', JStr ''m'')])
     \<and> property (JObj [(''name'', JStr ''m'')]) ''primitives'' = None"
    by simp
  from strip_no_error [OF s] s h m bare_scene_clean show ?thesis by blast
qed

end
